theory Spec2Isabelle
  imports Complex_Main "HOL-Library.Word"
begin

unbundle bit_operations_syntax

section \<open>The SDL input backend of fplbase (src/input\_sdl.cpp)\<close>

text \<open>
  The development follows \<^verbatim>\<open>src/src/input_sdl.cpp\<close>. C++ \<^verbatim>\<open>float\<close> values are
  represented by \<^typ>\<open>real\<close> numbers: rounding is not modelled, and every property below
  that mentions such a value is a property of the exact quotient, comparison or matrix
  product that the code writes down.
\<close>

subsection \<open>Button\<close>

text \<open>
  Modelled from the spec: class \<^verbatim>\<open>Button\<close> (declared in fplbase/input.h, defined in
  input.cpp) is used by this file but is not part of it. Section 3 of the specification
  gives its three fields, section 4.1 its update: \<^verbatim>\<open>update(is_down_now)\<close> sets
  \<^verbatim>\<open>is_down\<close>, and sets the corresponding edge flag only if the new value differs from
  the previous \<^verbatim>\<open>is_down\<close>.
\<close>

record Button =
  is_down :: bool
  went_down :: bool
  went_up :: bool

definition Button_new :: Button where
  "Button_new = \<lparr>is_down = False, went_down = False, went_up = False\<rparr>"

definition Update :: "bool \<Rightarrow> Button \<Rightarrow> Button" where
  "Update down b =
     b\<lparr>went_down := (if \<not> is_down b \<and> down then True else went_down b),
       went_up := (if is_down b \<and> \<not> down then True else went_up b),
       is_down := down\<rparr>"

subsection \<open>Joystick events\<close>

type_synonym vec2 = "real \<times> real"

text \<open>Maximum range (+/-) generated by joystick axis events (line 35).\<close>

definition kJoystickAxisRange :: real where
  "kJoystickAxisRange = 32767.0"

text \<open>
  The hat positions of SDL\_joystick.h (the SDL library, not this repository): four bits
  and their combinations.
\<close>

definition SDL_HAT_CENTERED :: "32 word" where "SDL_HAT_CENTERED = 0x00"
definition SDL_HAT_UP :: "32 word" where "SDL_HAT_UP = 0x01"
definition SDL_HAT_RIGHT :: "32 word" where "SDL_HAT_RIGHT = 0x02"
definition SDL_HAT_DOWN :: "32 word" where "SDL_HAT_DOWN = 0x04"
definition SDL_HAT_LEFT :: "32 word" where "SDL_HAT_LEFT = 0x08"
definition SDL_HAT_RIGHTUP :: "32 word" where "SDL_HAT_RIGHTUP = SDL_HAT_RIGHT OR SDL_HAT_UP"
definition SDL_HAT_RIGHTDOWN :: "32 word" where "SDL_HAT_RIGHTDOWN = SDL_HAT_RIGHT OR SDL_HAT_DOWN"
definition SDL_HAT_LEFTUP :: "32 word" where "SDL_HAT_LEFTUP = SDL_HAT_LEFT OR SDL_HAT_UP"
definition SDL_HAT_LEFTDOWN :: "32 word" where "SDL_HAT_LEFTDOWN = SDL_HAT_LEFT OR SDL_HAT_DOWN"

lemmas SDL_HAT_defs =
  SDL_HAT_CENTERED_def SDL_HAT_UP_def SDL_HAT_RIGHT_def SDL_HAT_DOWN_def SDL_HAT_LEFT_def
  SDL_HAT_RIGHTUP_def SDL_HAT_RIGHTDOWN_def SDL_HAT_LEFTUP_def SDL_HAT_LEFTDOWN_def

text \<open>
  \<^verbatim>\<open>InputSystem::ConvertHatToVector\<close> (lines 251-277): a switch over the hat value, in
  the order of its case labels. The default branch also logs an error, which changes no
  state of the input system; it returns the zero vector.
\<close>

definition ConvertHatToVector :: "32 word \<Rightarrow> vec2" where
  "ConvertHatToVector hat_enum =
     (if hat_enum = SDL_HAT_LEFTUP then (-1, -1)
      else if hat_enum = SDL_HAT_UP then (0, -1)
      else if hat_enum = SDL_HAT_RIGHTUP then (1, -1)
      else if hat_enum = SDL_HAT_LEFT then (-1, 0)
      else if hat_enum = SDL_HAT_CENTERED then (0, 0)
      else if hat_enum = SDL_HAT_RIGHT then (1, 0)
      else if hat_enum = SDL_HAT_LEFTDOWN then (-1, 1)
      else if hat_enum = SDL_HAT_DOWN then (0, 1)
      else if hat_enum = SDL_HAT_RIGHTDOWN then (1, 1)
      else (0, 0))"

text \<open>
  Modelled from the spec: class \<^verbatim>\<open>Joystick\<close> with \<^verbatim>\<open>SetAxis\<close>, \<^verbatim>\<open>GetButton\<close> and
  \<^verbatim>\<open>SetHat\<close>, and \<^verbatim>\<open>InputSystem::GetJoystick\<close>, are declared in fplbase/input.h and
  are not part of this file. Section 3 of the specification describes a joystick as
  buttons, axes and hats addressed by index, section 4.4 says that an axis event sets
  \<^verbatim>\<open>axes[index]\<close>, a button event routes to \<^verbatim>\<open>Button.update\<close> and a hat event stores the
  converted vector; records are created on the first event that refers to them.
\<close>

record Joystick =
  axis_list :: "nat \<Rightarrow> real"
  joy_button_list :: "nat \<Rightarrow> Button"
  hat_list :: "nat \<Rightarrow> vec2"

definition SetAxis :: "nat \<Rightarrow> real \<Rightarrow> Joystick \<Rightarrow> Joystick" where
  "SetAxis axis_index v j = j\<lparr>axis_list := (axis_list j)(axis_index := v)\<rparr>"

definition SetHat :: "nat \<Rightarrow> vec2 \<Rightarrow> Joystick \<Rightarrow> Joystick" where
  "SetHat hat_index v j = j\<lparr>hat_list := (hat_list j)(hat_index := v)\<rparr>"

definition Joystick_UpdateButton :: "nat \<Rightarrow> bool \<Rightarrow> Joystick \<Rightarrow> Joystick" where
  "Joystick_UpdateButton button_index down j =
     j\<lparr>joy_button_list := (joy_button_list j)(button_index := Update down (joy_button_list j button_index))\<rparr>"

text \<open>
  The joystick events of \<^verbatim>\<open>InputSystem::HandleJoystickEvent\<close> (lines 223-248) with the
  fields the function reads: \<^verbatim>\<open>jaxis.which/axis/value\<close> (the value is a signed 16-bit
  integer), \<^verbatim>\<open>jbutton.which/button/state\<close> and \<^verbatim>\<open>jhat.which/hat/value\<close>. The
  device-added and device-removed events call \<^verbatim>\<open>UpdateConnectedJoystickList\<close>, which
  asks the platform for its devices and is not embedded.
\<close>

datatype JoystickEvent =
    SDL_JOYAXISMOTION "32 word" "8 word" "16 word"
  | SDL_JOYBUTTON "32 word" "8 word" "8 word"
  | SDL_JOYHATMOTION "32 word" "8 word" "8 word"

definition SDL_PRESSED :: "8 word" where
  "SDL_PRESSED = 1"

fun HandleJoystickEvent :: "JoystickEvent \<Rightarrow> (32 word \<Rightarrow> Joystick) \<Rightarrow> (32 word \<Rightarrow> Joystick)" where
  "HandleJoystickEvent (SDL_JOYAXISMOTION which axis v) joystick_map =
     joystick_map(which := SetAxis (unat axis) (real_of_int (sint v) / kJoystickAxisRange) (joystick_map which))"
| "HandleJoystickEvent (SDL_JOYBUTTON which button st) joystick_map =
     joystick_map(which := Joystick_UpdateButton (unat button) (st = SDL_PRESSED) (joystick_map which))"
| "HandleJoystickEvent (SDL_JOYHATMOTION which hat v) joystick_map =
     joystick_map(which := SetHat (unat hat) (ConvertHatToVector (ucast v)) (joystick_map which))"

subsection \<open>The Android gamepad path\<close>

text \<open>
  Modelled from the spec: \<^verbatim>\<open>enum Gamepad::GamepadInputButton\<close> is declared in
  fplbase/input.h, which is not part of this file. Its enumerators are the ones this file
  names (\<^verbatim>\<open>kInvalid\<close>, the controls of the key table, \<^verbatim>\<open>kControlCount\<close>); section 3 of
  the specification lists the logical controls as Up, Down, Left, Right, A, B, C, X, Y, Z,
  the two shoulders, the two triggers, the two thumbsticks, Back, Start, Select and Mode,
  that is twenty controls, numbered from 0, with \<^verbatim>\<open>kInvalid\<close> before them and the count
  after them.
\<close>

datatype GamepadInputButton =
    kInvalid
  | kUp | kDown | kLeft | kRight
  | kButtonA | kButtonB | kButtonC | kButtonX | kButtonY | kButtonZ
  | kButtonL1 | kButtonR1 | kButtonL2 | kButtonR2
  | kButtonThumbL | kButtonThumbR
  | kButtonBack | kButtonStart | kButtonSelect | kButtonMode
  | kControlCount

fun enum_value :: "GamepadInputButton \<Rightarrow> int" where
  "enum_value kInvalid = -1"
| "enum_value kUp = 0"
| "enum_value kDown = 1"
| "enum_value kLeft = 2"
| "enum_value kRight = 3"
| "enum_value kButtonA = 4"
| "enum_value kButtonB = 5"
| "enum_value kButtonC = 6"
| "enum_value kButtonX = 7"
| "enum_value kButtonY = 8"
| "enum_value kButtonZ = 9"
| "enum_value kButtonL1 = 10"
| "enum_value kButtonR1 = 11"
| "enum_value kButtonL2 = 12"
| "enum_value kButtonR2 = 13"
| "enum_value kButtonThumbL = 14"
| "enum_value kButtonThumbR = 15"
| "enum_value kButtonBack = 16"
| "enum_value kButtonStart = 17"
| "enum_value kButtonSelect = 18"
| "enum_value kButtonMode = 19"
| "enum_value kControlCount = 20"

text \<open>
  The key codes and event actions of the Android NDK (android/keycodes.h and
  android/input.h; not this repository).
\<close>

definition AKEYCODE_BACK :: int where "AKEYCODE_BACK = 4"
definition AKEYCODE_DPAD_UP :: int where "AKEYCODE_DPAD_UP = 19"
definition AKEYCODE_DPAD_DOWN :: int where "AKEYCODE_DPAD_DOWN = 20"
definition AKEYCODE_DPAD_LEFT :: int where "AKEYCODE_DPAD_LEFT = 21"
definition AKEYCODE_DPAD_RIGHT :: int where "AKEYCODE_DPAD_RIGHT = 22"
definition AKEYCODE_DPAD_CENTER :: int where "AKEYCODE_DPAD_CENTER = 23"
definition AKEYCODE_MENU :: int where "AKEYCODE_MENU = 82"
definition AKEYCODE_BUTTON_A :: int where "AKEYCODE_BUTTON_A = 96"
definition AKEYCODE_BUTTON_B :: int where "AKEYCODE_BUTTON_B = 97"
definition AKEYCODE_BUTTON_C :: int where "AKEYCODE_BUTTON_C = 98"
definition AKEYCODE_BUTTON_X :: int where "AKEYCODE_BUTTON_X = 99"
definition AKEYCODE_BUTTON_Y :: int where "AKEYCODE_BUTTON_Y = 100"
definition AKEYCODE_BUTTON_Z :: int where "AKEYCODE_BUTTON_Z = 101"
definition AKEYCODE_BUTTON_L1 :: int where "AKEYCODE_BUTTON_L1 = 102"
definition AKEYCODE_BUTTON_R1 :: int where "AKEYCODE_BUTTON_R1 = 103"
definition AKEYCODE_BUTTON_L2 :: int where "AKEYCODE_BUTTON_L2 = 104"
definition AKEYCODE_BUTTON_R2 :: int where "AKEYCODE_BUTTON_R2 = 105"
definition AKEYCODE_BUTTON_THUMBL :: int where "AKEYCODE_BUTTON_THUMBL = 106"
definition AKEYCODE_BUTTON_THUMBR :: int where "AKEYCODE_BUTTON_THUMBR = 107"
definition AKEYCODE_BUTTON_START :: int where "AKEYCODE_BUTTON_START = 108"
definition AKEYCODE_BUTTON_SELECT :: int where "AKEYCODE_BUTTON_SELECT = 109"
definition AKEYCODE_BUTTON_MODE :: int where "AKEYCODE_BUTTON_MODE = 110"

lemmas AKEYCODE_defs =
  AKEYCODE_BACK_def AKEYCODE_DPAD_UP_def AKEYCODE_DPAD_DOWN_def AKEYCODE_DPAD_LEFT_def
  AKEYCODE_DPAD_RIGHT_def AKEYCODE_DPAD_CENTER_def AKEYCODE_MENU_def AKEYCODE_BUTTON_A_def
  AKEYCODE_BUTTON_B_def AKEYCODE_BUTTON_C_def AKEYCODE_BUTTON_X_def AKEYCODE_BUTTON_Y_def
  AKEYCODE_BUTTON_Z_def AKEYCODE_BUTTON_L1_def AKEYCODE_BUTTON_R1_def AKEYCODE_BUTTON_L2_def
  AKEYCODE_BUTTON_R2_def AKEYCODE_BUTTON_THUMBL_def AKEYCODE_BUTTON_THUMBR_def
  AKEYCODE_BUTTON_START_def AKEYCODE_BUTTON_SELECT_def AKEYCODE_BUTTON_MODE_def

definition AKEY_EVENT_ACTION_DOWN :: int where "AKEY_EVENT_ACTION_DOWN = 0"
definition AKEY_EVENT_ACTION_UP :: int where "AKEY_EVENT_ACTION_UP = 1"
definition AMOTION_EVENT_ACTION_MOVE :: int where "AMOTION_EVENT_ACTION_MOVE = 2"

lemmas ACTION_defs =
  AKEY_EVENT_ACTION_DOWN_def AKEY_EVENT_ACTION_UP_def AMOTION_EVENT_ACTION_MOVE_def

text \<open>\<^verbatim>\<open>struct JavaToGamepadMapping\<close> (lines 478-481) and the static table (lines 490-515).\<close>

record JavaToGamepadMapping =
  java_keycode :: int
  gamepad_code :: GamepadInputButton

definition kJavaToGamepadMap :: "JavaToGamepadMapping list" where
  "kJavaToGamepadMap =
    [\<lparr>java_keycode = AKEYCODE_DPAD_UP, gamepad_code = kUp\<rparr>,
     \<lparr>java_keycode = AKEYCODE_DPAD_DOWN, gamepad_code = kDown\<rparr>,
     \<lparr>java_keycode = AKEYCODE_DPAD_LEFT, gamepad_code = kLeft\<rparr>,
     \<lparr>java_keycode = AKEYCODE_DPAD_RIGHT, gamepad_code = kRight\<rparr>,
     \<lparr>java_keycode = AKEYCODE_DPAD_CENTER, gamepad_code = kButtonA\<rparr>,
     \<lparr>java_keycode = AKEYCODE_BUTTON_A, gamepad_code = kButtonA\<rparr>,
     \<lparr>java_keycode = AKEYCODE_BUTTON_B, gamepad_code = kButtonB\<rparr>,
     \<lparr>java_keycode = AKEYCODE_BUTTON_C, gamepad_code = kButtonC\<rparr>,
     \<lparr>java_keycode = AKEYCODE_BUTTON_X, gamepad_code = kButtonX\<rparr>,
     \<lparr>java_keycode = AKEYCODE_BUTTON_Y, gamepad_code = kButtonY\<rparr>,
     \<lparr>java_keycode = AKEYCODE_BUTTON_Z, gamepad_code = kButtonZ\<rparr>,
     \<lparr>java_keycode = AKEYCODE_BUTTON_L1, gamepad_code = kButtonL1\<rparr>,
     \<lparr>java_keycode = AKEYCODE_BUTTON_R1, gamepad_code = kButtonR1\<rparr>,
     \<lparr>java_keycode = AKEYCODE_BUTTON_L2, gamepad_code = kButtonL2\<rparr>,
     \<lparr>java_keycode = AKEYCODE_BUTTON_R2, gamepad_code = kButtonR2\<rparr>,
     \<lparr>java_keycode = AKEYCODE_BUTTON_THUMBL, gamepad_code = kButtonThumbL\<rparr>,
     \<lparr>java_keycode = AKEYCODE_BUTTON_THUMBR, gamepad_code = kButtonThumbR\<rparr>,
     \<lparr>java_keycode = AKEYCODE_BACK, gamepad_code = kButtonBack\<rparr>,
     \<lparr>java_keycode = AKEYCODE_BUTTON_START, gamepad_code = kButtonStart\<rparr>,
     \<lparr>java_keycode = AKEYCODE_BUTTON_SELECT, gamepad_code = kButtonSelect\<rparr>,
     \<lparr>java_keycode = AKEYCODE_MENU, gamepad_code = kButtonSelect\<rparr>,
     \<lparr>java_keycode = AKEYCODE_BUTTON_MODE, gamepad_code = kButtonMode\<rparr>]"

text \<open>
  \<^verbatim>\<open>Gamepad::GetGamepadCodeFromJavaKeyCode\<close> (lines 485-522): the loop
  \<^verbatim>\<open>for (int i = 0; i < Gamepad::kControlCount; i++)\<close> over the table, returning at the
  first entry whose key code matches and \<^verbatim>\<open>kInvalid\<close> after the loop. The table stores
  the enumerator as an \<^verbatim>\<open>int\<close> that the caller casts back; the model keeps the
  enumerator.
\<close>

function GetGamepadCode_loop :: "nat \<Rightarrow> int \<Rightarrow> GamepadInputButton" where
  "GetGamepadCode_loop i keycode =
     (if int i < enum_value kControlCount then
        (if java_keycode (kJavaToGamepadMap ! i) = keycode
         then gamepad_code (kJavaToGamepadMap ! i)
         else GetGamepadCode_loop (i + 1) keycode)
      else kInvalid)"
  by pat_completeness auto
termination
  by (relation "measure (\<lambda>(i, keycode). nat (enum_value kControlCount) - i)") auto

declare GetGamepadCode_loop.simps [simp del]

definition GetGamepadCodeFromJavaKeyCode :: "int \<Rightarrow> GamepadInputButton" where
  "GetGamepadCodeFromJavaKeyCode keycode = GetGamepadCode_loop 0 keycode"

text \<open>
  \<^verbatim>\<open>Gamepad\<close>: a controller id and \<^verbatim>\<open>button_list_\<close>, one \<^verbatim>\<open>Button\<close> for each control
  (the class is declared in fplbase/input.h; this file indexes the list by the enumerator
  in \<^verbatim>\<open>Gamepad::GetButton\<close>). \<^verbatim>\<open>Gamepad::GetButton\<close> (lines 472-476) asserts
  \<^verbatim>\<open>index >= 0 && index < Gamepad::kControlCount\<close>; a failed assertion is the value
  \<open>None\<close>.
\<close>

record Gamepad =
  controller_id :: int
  button_list :: "GamepadInputButton \<Rightarrow> Button"

definition Gamepad_new :: Gamepad where
  "Gamepad_new = \<lparr>controller_id = 0, button_list = (\<lambda>_. Button_new)\<rparr>"

definition GetButton :: "GamepadInputButton \<Rightarrow> Gamepad \<Rightarrow> Button option" where
  "GetButton index g =
     (if 0 \<le> enum_value index \<and> enum_value index < enum_value kControlCount
      then Some (button_list g index) else None)"

text \<open>The statement \<^verbatim>\<open>gamepad.GetButton(index).Update(down)\<close>.\<close>

definition GetButton_Update :: "GamepadInputButton \<Rightarrow> bool \<Rightarrow> Gamepad \<Rightarrow> Gamepad option" where
  "GetButton_Update index down g =
     (case GetButton index g of
        None \<Rightarrow> None
      | Some b \<Rightarrow> Some (g\<lparr>button_list := (button_list g)(index := Update down b)\<rparr>))"

text \<open>
  \<^verbatim>\<open>InputSystem::GetGamepad\<close> (lines 395-404): the gamepad of a device, created with its
  controller id set when the map has none. The C++ returns a reference into the map; the
  model returns the gamepad and the map, and the caller stores the gamepad back.
\<close>

definition GetGamepad :: "int \<Rightarrow> (int \<rightharpoonup> Gamepad) \<Rightarrow> Gamepad \<times> (int \<rightharpoonup> Gamepad)" where
  "GetGamepad gamepad_device_id gamepad_map =
     (case gamepad_map gamepad_device_id of
        None \<Rightarrow>
          (let gamepad = Gamepad_new\<lparr>controller_id := gamepad_device_id\<rparr>
           in (gamepad, gamepad_map(gamepad_device_id \<mapsto> gamepad)))
      | Some gamepad \<Rightarrow> (gamepad, gamepad_map))"

text \<open>
  \<^verbatim>\<open>AndroidInputEvent\<close> (declared in fplbase/input.h) with the five fields this file
  passes to its constructor and reads back.
\<close>

record AndroidInputEvent =
  device_id :: int
  event_code :: int
  control_code :: int
  event_x :: real
  event_y :: real

definition kMaxAndroidEventsPerFrame :: int where
  "kMaxAndroidEventsPerFrame = 100"

text \<open>
  \<^verbatim>\<open>InputSystem::ReceiveGamepadEvent\<close> (lines 410-419) on the static queue
  \<^verbatim>\<open>unhandled_java_input_events_\<close>, a list with its front first. The mutex is not
  modelled: calls are taken one after the other.
\<close>

definition ReceiveGamepadEvent ::
    "int \<Rightarrow> int \<Rightarrow> int \<Rightarrow> real \<Rightarrow> real \<Rightarrow> AndroidInputEvent list \<Rightarrow> AndroidInputEvent list" where
  "ReceiveGamepadEvent dev ecode ccode x y unhandled_java_input_events =
     (if int (length unhandled_java_input_events) < kMaxAndroidEventsPerFrame
      then unhandled_java_input_events @
             [\<lparr>device_id = dev, event_code = ecode, control_code = ccode, event_x = x, event_y = y\<rparr>]
      else unhandled_java_input_events)"

text \<open>
  The body of the loop of \<^verbatim>\<open>InputSystem::HandleGamepadEvents\<close> (lines 429-458) for one
  event taken from the queue. \<^verbatim>\<open>kGamepadHatThreshold\<close> is a constant of
  fplbase/input.h, which is not part of this file: it is the parameter \<open>thr\<close>.
\<close>

definition HandleGamepadEvent ::
    "real \<Rightarrow> AndroidInputEvent \<Rightarrow> (int \<rightharpoonup> Gamepad) \<Rightarrow> (int \<rightharpoonup> Gamepad) option" where
  "HandleGamepadEvent thr event gamepad_map =
     (case GetGamepad (device_id event) gamepad_map of (gamepad, gamepad_map1) \<Rightarrow>
        if event_code event = AKEY_EVENT_ACTION_DOWN then
          (let button_index = GetGamepadCodeFromJavaKeyCode (control_code event) in
           if button_index \<noteq> kInvalid then
             map_option (\<lambda>g. gamepad_map1(device_id event \<mapsto> g))
               (GetButton_Update button_index True gamepad)
           else Some gamepad_map1)
        else if event_code event = AKEY_EVENT_ACTION_UP then
          (let button_index = GetGamepadCodeFromJavaKeyCode (control_code event) in
           if button_index \<noteq> kInvalid then
             map_option (\<lambda>g. gamepad_map1(device_id event \<mapsto> g))
               (GetButton_Update button_index False gamepad)
           else Some gamepad_map1)
        else if event_code event = AMOTION_EVENT_ACTION_MOVE then
          (let left = event_x event < - thr;
               right = event_x event > thr;
               up = event_y event < - thr;
               down = event_y event > thr
           in map_option (\<lambda>g. gamepad_map1(device_id event \<mapsto> g))
                (Option.bind (GetButton_Update kLeft left gamepad) (\<lambda>g1.
                 Option.bind (GetButton_Update kRight right g1) (\<lambda>g2.
                 Option.bind (GetButton_Update kUp up g2) (\<lambda>g3.
                 GetButton_Update kDown down g3)))))
        else Some gamepad_map1)"

text \<open>
  \<^verbatim>\<open>InputSystem::HandleGamepadEvents\<close> (lines 422-463): the loop takes the front event
  and pops it while the queue is not empty; after the loop the queue is swapped with an
  empty one. The result is the queue and the gamepad map.
\<close>

fun HandleGamepadEvents_loop ::
    "real \<Rightarrow> AndroidInputEvent list \<Rightarrow> (int \<rightharpoonup> Gamepad)
       \<Rightarrow> (AndroidInputEvent list \<times> (int \<rightharpoonup> Gamepad)) option" where
  "HandleGamepadEvents_loop thr [] gamepad_map = Some ([], gamepad_map)"
| "HandleGamepadEvents_loop thr (event # queue) gamepad_map =
     (case HandleGamepadEvent thr event gamepad_map of
        None \<Rightarrow> None
      | Some gamepad_map' \<Rightarrow> HandleGamepadEvents_loop thr queue gamepad_map')"

definition HandleGamepadEvents ::
    "real \<Rightarrow> AndroidInputEvent list \<Rightarrow> (int \<rightharpoonup> Gamepad)
       \<Rightarrow> (AndroidInputEvent list \<times> (int \<rightharpoonup> Gamepad)) option" where
  "HandleGamepadEvents thr unhandled_java_input_events gamepad_map =
     map_option (\<lambda>(queue, gamepad_map'). ([], gamepad_map'))
       (HandleGamepadEvents_loop thr unhandled_java_input_events gamepad_map)"

text \<open>
  A run of producer calls between two frames: every call of \<^verbatim>\<open>ReceiveGamepadEvent\<close>
  with the arguments of one event, in order.
\<close>

fun receive_all :: "AndroidInputEvent list \<Rightarrow> AndroidInputEvent list \<Rightarrow> AndroidInputEvent list" where
  "receive_all [] queue = queue"
| "receive_all (e # es) queue =
     receive_all es
       (ReceiveGamepadEvent (device_id e) (event_code e) (control_code e) (event_x e) (event_y e) queue)"

subsection \<open>The head mounted display\<close>

text \<open>
  Matrices of the mathfu library (not this repository) with real entries, written as
  rows: \<^verbatim>\<open>mat4::Identity\<close>, the product \<^verbatim>\<open>operator*\<close> (and \<^verbatim>\<open>a *= b\<close>, which is
  \<^verbatim>\<open>a = a * b\<close>), the rotations \<^verbatim>\<open>mat3::RotationY\<close> and \<^verbatim>\<open>mat3::RotationZ\<close> about the
  y and the z axis by an angle in radians, and \<^verbatim>\<open>mat4::FromRotationMatrix\<close>, which puts a
  3x3 matrix into the upper left corner of the identity.
\<close>

type_synonym vec4 = "real \<times> real \<times> real \<times> real"
type_synonym mat4 = "vec4 \<times> vec4 \<times> vec4 \<times> vec4"
type_synonym mat3 = "(real \<times> real \<times> real) \<times> (real \<times> real \<times> real) \<times> (real \<times> real \<times> real)"

definition Identity :: mat4 where
  "Identity = ((1, 0, 0, 0), (0, 1, 0, 0), (0, 0, 1, 0), (0, 0, 0, 1))"

fun dot4 :: "vec4 \<Rightarrow> vec4 \<Rightarrow> real" where
  "dot4 (a0, a1, a2, a3) (b0, b1, b2, b3) = a0 * b0 + a1 * b1 + a2 * b2 + a3 * b3"

fun columns :: "mat4 \<Rightarrow> mat4" where
  "columns ((a0, a1, a2, a3), (b0, b1, b2, b3), (c0, c1, c2, c3), (d0, d1, d2, d3)) =
     ((a0, b0, c0, d0), (a1, b1, c1, d1), (a2, b2, c2, d2), (a3, b3, c3, d3))"

fun row_times :: "vec4 \<Rightarrow> mat4 \<Rightarrow> vec4" where
  "row_times r (c0, c1, c2, c3) = (dot4 r c0, dot4 r c1, dot4 r c2, dot4 r c3)"

fun mat_mul :: "mat4 \<Rightarrow> mat4 \<Rightarrow> mat4" where
  "mat_mul (r0, r1, r2, r3) m =
     (row_times r0 (columns m), row_times r1 (columns m),
      row_times r2 (columns m), row_times r3 (columns m))"

definition RotationY :: "real \<Rightarrow> mat3" where
  "RotationY angle = ((cos angle, 0, sin angle), (0, 1, 0), (- sin angle, 0, cos angle))"

definition RotationZ :: "real \<Rightarrow> mat3" where
  "RotationZ angle = ((cos angle, - sin angle, 0), (sin angle, cos angle, 0), (0, 0, 1))"

fun FromRotationMatrix :: "mat3 \<Rightarrow> mat4" where
  "FromRotationMatrix ((a0, a1, a2), (b0, b1, b2), (c0, c1, c2)) =
     ((a0, a1, a2, 0), (b0, b1, b2, 0), (c0, c1, c2, 0), (0, 0, 0, 1))"

text \<open>
  \<^verbatim>\<open>HeadMountedDisplayInput\<close> (declared in fplbase/input.h) with the members this file
  reads and writes. \<^verbatim>\<open>device_orientation_\<close> holds the display rotation that the
  activity reports: 0, 1, 2, 3 for 0, 90, 180 and 270 degrees.
\<close>

record HeadMountedDisplayInput =
  head_transform :: mat4
  left_eye_transform :: mat4
  right_eye_transform :: mat4
  device_orientation :: int
  device_orientation_at_reset :: int
  use_device_orientation_correction :: bool
  triggered :: bool
  pending_trigger :: bool

text \<open>
  The switch of \<^verbatim>\<open>HeadMountedDisplayInput::UpdateTransforms\<close> (lines 595-643): the two
  correction matrices, both the identity before the switch, as the pair
  \<open>(post_correction, pre_correction)\<close>.
\<close>

definition corrections :: "int \<Rightarrow> int \<Rightarrow> mat4 \<times> mat4" where
  "corrections orientation orientation_at_reset =
     (if orientation = 0 then
        (let pre_correction = FromRotationMatrix (RotationY (pi / 2));
             pre_correction =
               (if orientation_at_reset = 2
                then mat_mul pre_correction (FromRotationMatrix (RotationY pi))
                else pre_correction);
             post_correction = FromRotationMatrix (RotationZ (- (pi / 2)))
         in (post_correction, pre_correction))
      else if orientation = 1 then
        (let pre_correction =
               (if orientation_at_reset = 3
                then FromRotationMatrix (RotationY pi)
                else Identity)
         in (Identity, pre_correction))
      else if orientation = 2 then
        (let pre_correction = FromRotationMatrix (RotationY (- (pi / 2)));
             pre_correction =
               (if orientation_at_reset = 0
                then mat_mul pre_correction (FromRotationMatrix (RotationY pi))
                else pre_correction);
             post_correction = FromRotationMatrix (RotationZ (pi / 2))
         in (post_correction, pre_correction))
      else if orientation = 3 then
        (let pre_correction =
               (if orientation_at_reset \<noteq> 1
                then FromRotationMatrix (RotationY (- pi))
                else Identity);
             post_correction = FromRotationMatrix (RotationZ pi)
         in (post_correction, pre_correction))
      else (Identity, Identity))"

text \<open>
  \<^verbatim>\<open>HeadMountedDisplayInput::UpdateTransforms\<close> (lines 577-659). The three matrices that
  the activity's \<^verbatim>\<open>GetEyeViews\<close> fills in are the parameters \<open>head\<close>, \<open>left_eye\<close> and
  \<open>right_eye\<close>.
\<close>

definition UpdateTransforms :: "mat4 \<Rightarrow> mat4 \<Rightarrow> mat4 \<Rightarrow> HeadMountedDisplayInput \<Rightarrow> HeadMountedDisplayInput" where
  "UpdateTransforms head left_eye right_eye h =
     (let h1 = h\<lparr>head_transform := head, left_eye_transform := left_eye,
                 right_eye_transform := right_eye\<rparr>
      in if use_device_orientation_correction h1 then
           (let (post_correction, pre_correction) =
                  corrections (device_orientation h1) (device_orientation_at_reset h1)
            in h1\<lparr>head_transform :=
                     mat_mul (mat_mul post_correction (head_transform h1)) pre_correction,
                   left_eye_transform :=
                     mat_mul (mat_mul post_correction (left_eye_transform h1)) pre_correction,
                   right_eye_transform :=
                     mat_mul (mat_mul post_correction (right_eye_transform h1)) pre_correction\<rparr>)
         else h1)"

text \<open>
  \<^verbatim>\<open>HeadMountedDisplayInput::ResetHeadTracker\<close> (lines 563-575) records the orientation;
  the call into the activity has no effect on this object.
\<close>

definition ResetHeadTracker :: "HeadMountedDisplayInput \<Rightarrow> HeadMountedDisplayInput" where
  "ResetHeadTracker h = h\<lparr>device_orientation_at_reset := device_orientation h\<rparr>"

text \<open>
  The cross cases of the specification: the current orientation and the orientation at
  the last reset are opposite, 0 and 180 degrees or 90 and 270 degrees, in either order.
\<close>

definition cross_case :: "int \<Rightarrow> int \<Rightarrow> bool" where
  "cross_case orientation orientation_at_reset =
     ((orientation, orientation_at_reset) = (0, 2) \<or> (orientation, orientation_at_reset) = (2, 0) \<or>
      (orientation, orientation_at_reset) = (1, 3) \<or> (orientation, orientation_at_reset) = (3, 1))"

subsection \<open>The event loop\<close>

text \<open>
  \<^verbatim>\<open>mathfu::vec2i\<close>: two 32-bit integers, added componentwise (modulo \<open>2 ^ 32\<close>).
\<close>

type_synonym vec2i = "32 word \<times> 32 word"

fun vec2i_add :: "vec2i \<Rightarrow> vec2i \<Rightarrow> vec2i" where
  "vec2i_add (a, b) (c, d) = (a + c, b + d)"

text \<open>
  Modelled from the spec: \<^verbatim>\<open>struct InputPointer\<close> and the members
  \<^verbatim>\<open>InputSystem::FindPointer\<close> and \<^verbatim>\<open>InputSystem::RemovePointer\<close> are declared in
  fplbase/input.h and defined in input.cpp; this file only calls them. Section 3 of the
  specification gives a pointer an id, a position, a delta accumulated since the last
  frame and a used flag. Section 4.2 describes the lookup: the ordinal of the slot in use
  for the platform id; for a new contact the lowest free slot, which is assigned and
  marked used; ordinal 0 when there is neither. Freeing a slot makes it available to the
  next new contact.
\<close>

record InputPointer =
  pointer_id :: "64 word"
  mousepos :: vec2i
  mousedelta :: vec2i
  used :: bool

fun find_index :: "('a \<Rightarrow> bool) \<Rightarrow> 'a list \<Rightarrow> nat option" where
  "find_index P [] = None"
| "find_index P (x # xs) = (if P x then Some 0 else map_option Suc (find_index P xs))"

definition FindPointer :: "64 word \<Rightarrow> InputPointer list \<Rightarrow> nat \<times> InputPointer list" where
  "FindPointer fid ps =
     (case find_index (\<lambda>p. used p \<and> pointer_id p = fid) ps of
        Some i \<Rightarrow> (i, ps)
      | None \<Rightarrow>
          (case find_index (\<lambda>p. \<not> used p) ps of
             Some i \<Rightarrow> (i, ps[i := (ps ! i)\<lparr>pointer_id := fid, used := True\<rparr>])
           | None \<Rightarrow> (0, ps)))"

definition RemovePointer :: "nat \<Rightarrow> InputPointer list \<Rightarrow> InputPointer list option" where
  "RemovePointer i ps =
     (if i < length ps then Some (ps[i := (ps ! i)\<lparr>used := False\<rparr>]) else None)"

text \<open>
  The calls that \<^verbatim>\<open>UpdateEvents\<close> makes on the pointer table and on the pointer
  buttons, recorded in program order in the history \<open>calls\<close> of the state below.
\<close>

datatype call =
    Call_FindPointer "64 word"
  | Call_RemovePointer nat
  | Call_GetPointerButton_Update nat bool

text \<open>
  The state of \<^verbatim>\<open>InputSystem\<close> that the embedded events read and write.
  \<^verbatim>\<open>GetPointerButton(i)\<close> (fplbase/input.h) is the \<^verbatim>\<open>Button\<close> of pointer \<open>i\<close>: the
  finger-down case calls it with the ordinal of the contact. It is the family
  \<open>pointer_button\<close>.
\<close>

record InputSystem =
  exit_requested :: bool
  touch_device :: bool
  pointers :: "InputPointer list"
  pointer_button :: "nat \<Rightarrow> Button"
  mousewheel_delta :: vec2i
  joystick_map :: "32 word \<Rightarrow> Joystick"
  head_mounted_display_input :: HeadMountedDisplayInput
  calls :: "call list"

text \<open>The build: the two preprocessor symbols that the embedded cases test.\<close>

record build =
  PLATFORM_MOBILE :: bool
  FPLBASE_ANDROID_VR :: bool

text \<open>
  The events of \<^verbatim>\<open>InputSystem::UpdateEvents\<close> (lines 96-221) that are embedded, each with
  the fields its case reads: quit; finger up (\<^verbatim>\<open>tfinger.fingerId\<close>); mouse button down
  and up, which share one case (\<^verbatim>\<open>button.button\<close>, \<^verbatim>\<open>button.state\<close>,
  \<^verbatim>\<open>button.windowID\<close>, \<^verbatim>\<open>button.x\<close>, \<^verbatim>\<open>button.y\<close>); mouse motion (the position, read
  through \<^verbatim>\<open>event.button.x/y\<close>, which share their place in the union with
  \<^verbatim>\<open>event.motion.x/y\<close>, then \<^verbatim>\<open>motion.xrel\<close> and \<^verbatim>\<open>motion.yrel\<close>); mouse wheel
  (\<^verbatim>\<open>wheel.x\<close>, \<^verbatim>\<open>wheel.y\<close>); and the joystick events. Keyboard, text, window, gesture,
  finger-down and finger-motion events are not embedded.
\<close>

datatype SDL_Event =
    SDL_QUIT
  | SDL_FINGERUP "64 word"
  | SDL_MOUSEBUTTON "8 word" "8 word" "32 word" "32 word" "32 word"
  | SDL_MOUSEMOTION "32 word" "32 word" "32 word" "32 word"
  | SDL_MOUSEWHEEL "32 word" "32 word"
  | SDL_JOYSTICK JoystickEvent

text \<open>
  The argument \<^verbatim>\<open>event.button.button - 1\<close> of \<^verbatim>\<open>GetPointerButton(size_t)\<close>: the 8-bit
  button is promoted to \<^verbatim>\<open>int\<close>, and the difference is converted to a 64-bit
  \<^verbatim>\<open>size_t\<close>.
\<close>

definition size_t_of_int :: "int \<Rightarrow> nat" where
  "size_t_of_int i = nat (i mod 2 ^ 64)"

definition do_FindPointer :: "64 word \<Rightarrow> InputSystem \<Rightarrow> nat \<times> InputSystem" where
  "do_FindPointer fid s =
     (case FindPointer fid (pointers s) of
        (i, ps) \<Rightarrow> (i, s\<lparr>pointers := ps, calls := calls s @ [Call_FindPointer fid]\<rparr>))"

definition do_RemovePointer :: "nat \<Rightarrow> InputSystem \<Rightarrow> InputSystem option" where
  "do_RemovePointer i s =
     map_option (\<lambda>ps. s\<lparr>pointers := ps, calls := calls s @ [Call_RemovePointer i]\<rparr>)
       (RemovePointer i (pointers s))"

text \<open>The statement \<^verbatim>\<open>GetPointerButton(i).Update(down)\<close>.\<close>

definition GetPointerButton_Update :: "nat \<Rightarrow> bool \<Rightarrow> InputSystem \<Rightarrow> InputSystem" where
  "GetPointerButton_Update i down s =
     s\<lparr>pointer_button := (pointer_button s)(i := Update down (pointer_button s i)),
       calls := calls s @ [Call_GetPointerButton_Update i down]\<rparr>"

text \<open>
  An assignment to a member of \<^verbatim>\<open>pointers_[0]\<close>; \<open>None\<close> when the vector has no
  element 0.
\<close>

definition update_pointer0 :: "(InputPointer \<Rightarrow> InputPointer) \<Rightarrow> InputSystem \<Rightarrow> InputSystem option" where
  "update_pointer0 f s =
     (case pointers s of
        [] \<Rightarrow> None
      | p # ps \<Rightarrow> Some (s\<lparr>pointers := f p # ps\<rparr>))"

text \<open>
  Modelled from the spec: \<^verbatim>\<open>HeadMountedDisplayInput::OnTrigger\<close> is defined in
  fplbase/input.h; section 6 of the specification says that the trigger pulse is latched
  into \<^verbatim>\<open>pending_trigger\<close>.
\<close>

definition OnTrigger :: "HeadMountedDisplayInput \<Rightarrow> HeadMountedDisplayInput" where
  "OnTrigger h = h\<lparr>pending_trigger := True\<rparr>"

text \<open>One turn of the loop of \<^verbatim>\<open>InputSystem::UpdateEvents\<close>: the switch on one event.\<close>

fun UpdateEvent :: "build \<Rightarrow> SDL_Event \<Rightarrow> InputSystem \<Rightarrow> InputSystem option" where
  "UpdateEvent cfg SDL_QUIT s = Some (s\<lparr>exit_requested := True\<rparr>)"
| "UpdateEvent cfg (SDL_FINGERUP fingerId) s =
     (if PLATFORM_MOBILE cfg then
        (case do_FindPointer fingerId (s\<lparr>touch_device := True\<rparr>) of
           (i, s1) \<Rightarrow>
             (case do_RemovePointer i s1 of
                None \<Rightarrow> None
              | Some s2 \<Rightarrow> Some (GetPointerButton_Update i False s2)))
      else Some s)"
| "UpdateEvent cfg (SDL_MOUSEBUTTON button state windowID x y) s =
     (let s1 = s\<lparr>touch_device := False\<rparr>;
          s2 = GetPointerButton_Update (size_t_of_int (uint button - 1)) (state = SDL_PRESSED) s1
      in Option.bind
           (if windowID \<noteq> 0 then update_pointer0 (\<lambda>p. p\<lparr>mousepos := (x, y)\<rparr>) s2 else Some s2)
           (\<lambda>s3. Option.bind (update_pointer0 (\<lambda>p. p\<lparr>used := True\<rparr>) s3)
           (\<lambda>s4. Some (if FPLBASE_ANDROID_VR cfg \<and> state = SDL_PRESSED
                         then s4\<lparr>head_mounted_display_input :=
                                   OnTrigger (head_mounted_display_input s4)\<rparr>
                         else s4))))"
| "UpdateEvent cfg (SDL_MOUSEMOTION x y xrel yrel) s =
     (if \<not> PLATFORM_MOBILE cfg then
        Option.bind
          (update_pointer0 (\<lambda>p. p\<lparr>mousedelta := vec2i_add (mousedelta p) (xrel, yrel)\<rparr>)
             (s\<lparr>touch_device := False\<rparr>))
          (update_pointer0 (\<lambda>p. p\<lparr>mousepos := (x, y)\<rparr>))
      else Some s)"
| "UpdateEvent cfg (SDL_MOUSEWHEEL x y) s =
     Some (s\<lparr>touch_device := False, mousewheel_delta := vec2i_add (mousewheel_delta s) (x, y)\<rparr>)"
| "UpdateEvent cfg (SDL_JOYSTICK e) s =
     Some (s\<lparr>joystick_map := HandleJoystickEvent e (joystick_map s)\<rparr>)"

text \<open>
  \<^verbatim>\<open>InputSystem::UpdateEvents\<close>: the events that \<^verbatim>\<open>SDL_PollEvent\<close> delivers until its
  queue is empty, in order.
\<close>

fun UpdateEvents :: "build \<Rightarrow> SDL_Event list \<Rightarrow> InputSystem \<Rightarrow> InputSystem option" where
  "UpdateEvents cfg [] s = Some s"
| "UpdateEvents cfg (event # events) s =
     (case UpdateEvent cfg event s of
        None \<Rightarrow> None
      | Some s' \<Rightarrow> UpdateEvents cfg events s')"

text \<open>
  The order of the three steps of a contact-end event as the specification words it:
  lookup, release of the button, then freeing of the slot.
\<close>

definition finger_up_calls_spec :: "64 word \<Rightarrow> nat \<Rightarrow> call list" where
  "finger_up_calls_spec fingerId i =
     [Call_FindPointer fingerId, Call_GetPointerButton_Update i False, Call_RemovePointer i]"

text \<open>
  The gamepad after the four statements of the motion case (lines 453-456), each on its
  own button.
\<close>

definition motion_gamepad :: "real \<Rightarrow> AndroidInputEvent \<Rightarrow> Gamepad \<Rightarrow> Gamepad" where
  "motion_gamepad thr event g =
     g\<lparr>button_list := (button_list g)
        (kLeft := Update (event_x event < - thr) (button_list g kLeft),
         kRight := Update (event_x event > thr) (button_list g kRight),
         kUp := Update (event_y event < - thr) (button_list g kUp),
         kDown := Update (event_y event > thr) (button_list g kDown))\<rparr>"

subsection \<open>States for concrete evaluation\<close>

text \<open>
  Modelled from the spec: the constructors of \<^verbatim>\<open>InputPointer\<close>, \<^verbatim>\<open>Joystick\<close>,
  \<^verbatim>\<open>HeadMountedDisplayInput\<close> and \<^verbatim>\<open>InputSystem\<close> are in fplbase/input.h. The objects
  below start as the specification describes a fresh input system: buttons up, no edge
  recorded, positions and deltas zero, pointer slots free, no trigger pending, no
  orientation correction. \<open>InputSystem_new\<close> has two pointer slots.
\<close>

definition InputPointer_new :: InputPointer where
  "InputPointer_new = \<lparr>pointer_id = 0, mousepos = (0, 0), mousedelta = (0, 0), used = False\<rparr>"

definition Joystick_new :: Joystick where
  "Joystick_new =
     \<lparr>axis_list = (\<lambda>_. 0), joy_button_list = (\<lambda>_. Button_new), hat_list = (\<lambda>_. (0, 0))\<rparr>"

definition HeadMountedDisplayInput_new :: HeadMountedDisplayInput where
  "HeadMountedDisplayInput_new =
     \<lparr>head_transform = Identity, left_eye_transform = Identity, right_eye_transform = Identity,
      device_orientation = 0, device_orientation_at_reset = 0,
      use_device_orientation_correction = False, triggered = False, pending_trigger = False\<rparr>"

definition InputSystem_new :: InputSystem where
  "InputSystem_new =
     \<lparr>exit_requested = False, touch_device = False,
      pointers = [InputPointer_new, InputPointer_new],
      pointer_button = (\<lambda>_. Button_new), mousewheel_delta = (0, 0),
      joystick_map = (\<lambda>_. Joystick_new),
      head_mounted_display_input = HeadMountedDisplayInput_new, calls = []\<rparr>"

definition desktop_build :: build where
  "desktop_build = \<lparr>PLATFORM_MOBILE = False, FPLBASE_ANDROID_VR = False\<rparr>"

definition mobile_build :: build where
  "mobile_build = \<lparr>PLATFORM_MOBILE = True, FPLBASE_ANDROID_VR = False\<rparr>"

definition android_vr_build :: build where
  "android_vr_build = \<lparr>PLATFORM_MOBILE = True, FPLBASE_ANDROID_VR = True\<rparr>"

section \<open>Properties\<close>

subsection \<open>The gamepad queue\<close>

lemma table_length: "length kJavaToGamepadMap = 22"
  by (simp add: kJavaToGamepadMap_def)

lemma table_codes_are_controls:
  "m \<in> set kJavaToGamepadMap \<Longrightarrow>
     0 \<le> enum_value (gamepad_code m) \<and> enum_value (gamepad_code m) < enum_value kControlCount"
  by (auto simp: kJavaToGamepadMap_def)

lemma loop_result_range:
  "GetGamepadCode_loop i keycode = kInvalid \<or>
     (0 \<le> enum_value (GetGamepadCode_loop i keycode) \<and>
      enum_value (GetGamepadCode_loop i keycode) < enum_value kControlCount)"
proof (induction i keycode rule: GetGamepadCode_loop.induct)
  case (1 i keycode)
  note unfold = GetGamepadCode_loop.simps [of i keycode]
  show ?case
  proof (cases "int i < enum_value kControlCount")
    case False
    then have "GetGamepadCode_loop i keycode = kInvalid"
      using unfold by simp
    then show ?thesis by simp
  next
    case in_range: True
    show ?thesis
    proof (cases "java_keycode (kJavaToGamepadMap ! i) = keycode")
      case True
      from in_range have "i < length kJavaToGamepadMap"
        by (simp add: table_length)
      then have "kJavaToGamepadMap ! i \<in> set kJavaToGamepadMap"
        by (rule nth_mem)
      moreover have "GetGamepadCode_loop i keycode = gamepad_code (kJavaToGamepadMap ! i)"
        using unfold in_range True by simp
      ultimately show ?thesis
        using table_codes_are_controls by simp
    next
      case False
      then have "GetGamepadCode_loop i keycode = GetGamepadCode_loop (i + 1) keycode"
        using unfold in_range by simp
      with in_range False "1.IH" show ?thesis by simp
    qed
  qed
qed

lemma GetButton_Update_Some:
  "0 \<le> enum_value index \<Longrightarrow> enum_value index < enum_value kControlCount \<Longrightarrow>
   GetButton_Update index down g =
     Some (g\<lparr>button_list := (button_list g)(index := Update down (button_list g index))\<rparr>)"
  by (simp add: GetButton_Update_def GetButton_def)

lemma key_event_result:
  "GetGamepadCodeFromJavaKeyCode k \<noteq> kInvalid \<Longrightarrow>
   GetButton_Update (GetGamepadCodeFromJavaKeyCode k) down g =
     Some (g\<lparr>button_list := (button_list g)(GetGamepadCodeFromJavaKeyCode k :=
                 Update down (button_list g (GetGamepadCodeFromJavaKeyCode k)))\<rparr>)"
  using loop_result_range [of 0 k]
  by (intro GetButton_Update_Some) (auto simp: GetGamepadCodeFromJavaKeyCode_def)

lemma motion_event_result:
  "event_code event = AMOTION_EVENT_ACTION_MOVE \<Longrightarrow>
   HandleGamepadEvent thr event m =
     Some ((snd (GetGamepad (device_id event) m))
             (device_id event \<mapsto> motion_gamepad thr event (fst (GetGamepad (device_id event) m))))"
  by (simp add: HandleGamepadEvent_def GetButton_Update_Some ACTION_defs motion_gamepad_def
        split: prod.splits)

lemma HandleGamepadEvent_total: "\<exists>m'. HandleGamepadEvent thr event m = Some m'"
proof -
  obtain g m1 where gm: "GetGamepad (device_id event) m = (g, m1)"
    by (cases "GetGamepad (device_id event) m")
  consider (down) "event_code event = AKEY_EVENT_ACTION_DOWN"
    | (up) "event_code event = AKEY_EVENT_ACTION_UP"
    | (move) "event_code event = AMOTION_EVENT_ACTION_MOVE"
    | (other) "event_code event \<noteq> AKEY_EVENT_ACTION_DOWN" "event_code event \<noteq> AKEY_EVENT_ACTION_UP"
        "event_code event \<noteq> AMOTION_EVENT_ACTION_MOVE"
    by blast
  then show ?thesis
  proof cases
    case down
    then show ?thesis
      by (simp add: HandleGamepadEvent_def gm Let_def key_event_result)
  next
    case up
    then show ?thesis
      by (simp add: HandleGamepadEvent_def gm Let_def key_event_result ACTION_defs)
  next
    case move
    then show ?thesis by (simp add: motion_event_result)
  next
    case other
    then show ?thesis by (simp add: HandleGamepadEvent_def gm)
  qed
qed

lemma HandleGamepadEvents_loop_total:
  "\<exists>m'. HandleGamepadEvents_loop thr q m = Some ([], m')"
proof (induction q arbitrary: m)
  case Nil
  show ?case by simp
next
  case (Cons e q)
  obtain m1 where "HandleGamepadEvent thr e m = Some m1"
    using HandleGamepadEvent_total by blast
  with Cons.IH [of m1] show ?case by simp
qed

lemma ReceiveGamepadEvent_length:
  "length q \<le> 100 \<Longrightarrow> length (ReceiveGamepadEvent d e c x y q) \<le> 100"
  by (simp add: ReceiveGamepadEvent_def kMaxAndroidEventsPerFrame_def)

lemma receive_all_length: "length q \<le> 100 \<Longrightarrow> length (receive_all es q) \<le> 100"
  by (induction es arbitrary: q) (simp_all add: ReceiveGamepadEvent_length)

lemma receive_all_take: "receive_all es q = q @ take (100 - length q) es"
proof (induction es arbitrary: q)
  case Nil
  show ?case by simp
next
  case (Cons e es)
  show ?case
  proof (cases "length q < 100")
    case True
    then obtain k where k: "100 - length q = Suc k"
      by (cases "100 - length q") auto
    with True have "100 - Suc (length q) = k" by simp
    with True k show ?thesis
      by (simp add: Cons.IH ReceiveGamepadEvent_def kMaxAndroidEventsPerFrame_def)
  next
    case False
    then show ?thesis
      by (simp add: Cons.IH ReceiveGamepadEvent_def kMaxAndroidEventsPerFrame_def)
  qed
qed

text \<open>
  Claim C3. The Android gamepad event queue is bounded and drained completely:
  \<^verbatim>\<open>ReceiveGamepadEvent\<close> appends the event when the queue holds fewer than 100 events
  and leaves the queue unchanged otherwise; whatever the producer sends between two
  frames, starting from the empty queue that a frame leaves behind, the queue holds the
  first 100 of these events at most; and \<^verbatim>\<open>HandleGamepadEvents\<close> returns, for every
  queue, with the queue empty. Calls are taken one after the other.
\<close>

theorem gamepad_queue_bounded_and_drained:
  "ReceiveGamepadEvent d e c x y q =
     (if length q < 100
      then q @ [\<lparr>device_id = d, event_code = e, control_code = c, event_x = x, event_y = y\<rparr>]
      else q) \<and>
   receive_all es [] = take 100 es \<and>
   length (receive_all es []) = min (length es) 100 \<and>
   (\<exists>m'. HandleGamepadEvents thr (receive_all es []) m = Some ([], m')) \<and>
   (\<exists>m'. HandleGamepadEvents thr q m = Some ([], m'))"
proof -
  have drained: "\<exists>m'. HandleGamepadEvents thr q' m = Some ([], m')" for q'
    using HandleGamepadEvents_loop_total [of thr q' m]
    by (auto simp: HandleGamepadEvents_def)
  have "receive_all es [] = take 100 es"
    by (simp add: receive_all_take)
  moreover have "ReceiveGamepadEvent d e c x y q =
     (if length q < 100
      then q @ [\<lparr>device_id = d, event_code = e, control_code = c, event_x = x, event_y = y\<rparr>]
      else q)"
    by (simp add: ReceiveGamepadEvent_def kMaxAndroidEventsPerFrame_def)
  ultimately show ?thesis
    using drained by (simp add: min.commute)
qed

theorem gamepad_queue_bounded_and_drained_witness:
  "receive_all (replicate 101 \<lparr>device_id = 7, event_code = 0, control_code = 96, event_x = 0, event_y = 0\<rparr>) [] =
     replicate 100 \<lparr>device_id = 7, event_code = 0, control_code = 96, event_x = 0, event_y = 0\<rparr> \<and>
   (\<exists>m'. HandleGamepadEvents (1 / 2)
      (receive_all (replicate 101 \<lparr>device_id = 7, event_code = 0, control_code = 96, event_x = 0, event_y = 0\<rparr>) [])
      Map.empty = Some ([], m'))"
proof -
  let ?e = "\<lparr>device_id = 7, event_code = 0, control_code = 96, event_x = 0, event_y = 0\<rparr>"
  note all = gamepad_queue_bounded_and_drained [of 7 0 96 0 0 "[]" "replicate 101 ?e" "1 / 2" Map.empty]
  from all have queue: "receive_all (replicate 101 ?e) [] = take 100 (replicate 101 ?e)"
    by blast
  from all have drained:
    "\<exists>m'. HandleGamepadEvents (1 / 2) (receive_all (replicate 101 ?e) []) Map.empty = Some ([], m')"
    by blast
  have "take 100 (replicate 101 ?e) = replicate 100 ?e"
    by simp
  with queue have "receive_all (replicate 101 ?e) [] = replicate 100 ?e"
    by simp
  with drained show ?thesis by blast
qed

subsection \<open>Gamepad keys\<close>

lemma lookup_unfold:
  "GetGamepadCodeFromJavaKeyCode k = GetGamepadCode_loop 0 k"
  by (simp add: GetGamepadCodeFromJavaKeyCode_def)

text \<open>
  The twenty entries of the table that the loop reaches map to their controls, and a key
  event with such a code updates the button of that control.
\<close>

lemma listed_keycodes_in_loop_range:
  "GetGamepadCodeFromJavaKeyCode AKEYCODE_DPAD_UP = kUp"
  "GetGamepadCodeFromJavaKeyCode AKEYCODE_DPAD_DOWN = kDown"
  "GetGamepadCodeFromJavaKeyCode AKEYCODE_DPAD_LEFT = kLeft"
  "GetGamepadCodeFromJavaKeyCode AKEYCODE_DPAD_RIGHT = kRight"
  "GetGamepadCodeFromJavaKeyCode AKEYCODE_DPAD_CENTER = kButtonA"
  "GetGamepadCodeFromJavaKeyCode AKEYCODE_BUTTON_A = kButtonA"
  "GetGamepadCodeFromJavaKeyCode AKEYCODE_BUTTON_B = kButtonB"
  "GetGamepadCodeFromJavaKeyCode AKEYCODE_BUTTON_C = kButtonC"
  "GetGamepadCodeFromJavaKeyCode AKEYCODE_BUTTON_X = kButtonX"
  "GetGamepadCodeFromJavaKeyCode AKEYCODE_BUTTON_Y = kButtonY"
  "GetGamepadCodeFromJavaKeyCode AKEYCODE_BUTTON_Z = kButtonZ"
  "GetGamepadCodeFromJavaKeyCode AKEYCODE_BUTTON_L1 = kButtonL1"
  "GetGamepadCodeFromJavaKeyCode AKEYCODE_BUTTON_R1 = kButtonR1"
  "GetGamepadCodeFromJavaKeyCode AKEYCODE_BUTTON_L2 = kButtonL2"
  "GetGamepadCodeFromJavaKeyCode AKEYCODE_BUTTON_R2 = kButtonR2"
  "GetGamepadCodeFromJavaKeyCode AKEYCODE_BUTTON_THUMBL = kButtonThumbL"
  "GetGamepadCodeFromJavaKeyCode AKEYCODE_BUTTON_THUMBR = kButtonThumbR"
  "GetGamepadCodeFromJavaKeyCode AKEYCODE_BACK = kButtonBack"
  "GetGamepadCodeFromJavaKeyCode AKEYCODE_BUTTON_START = kButtonStart"
  "GetGamepadCodeFromJavaKeyCode AKEYCODE_BUTTON_SELECT = kButtonSelect"
  by (simp_all add: lookup_unfold GetGamepadCode_loop.simps kJavaToGamepadMap_def AKEYCODE_defs)

lemma loop_no_match:
  "(\<forall>j. i \<le> j \<and> int j < enum_value kControlCount \<longrightarrow>
        java_keycode (kJavaToGamepadMap ! j) \<noteq> keycode) \<Longrightarrow>
   GetGamepadCode_loop i keycode = kInvalid"
proof (induction i keycode rule: GetGamepadCode_loop.induct)
  case (1 i keycode)
  note unfold = GetGamepadCode_loop.simps [of i keycode]
  show ?case
  proof (cases "int i < enum_value kControlCount")
    case False
    then show ?thesis using unfold by simp
  next
    case True
    with "1.prems" have differs: "java_keycode (kJavaToGamepadMap ! i) \<noteq> keycode"
      by auto
    have "GetGamepadCode_loop (i + 1) keycode = kInvalid"
      using "1.IH" [OF True differs] "1.prems" by auto
    with unfold True differs show ?thesis by simp
  qed
qed

text \<open>A key code that is not among the first twenty entries is not mapped.\<close>

lemma unlisted_keycode_invalid:
  "keycode \<notin> java_keycode ` set (take 20 kJavaToGamepadMap) \<Longrightarrow>
   GetGamepadCodeFromJavaKeyCode keycode = kInvalid"
proof -
  assume unlisted: "keycode \<notin> java_keycode ` set (take 20 kJavaToGamepadMap)"
  have "java_keycode (kJavaToGamepadMap ! j) \<noteq> keycode" if "int j < enum_value kControlCount" for j
  proof -
    from that have "j < length (take 20 kJavaToGamepadMap)"
      by (simp add: table_length)
    then have "take 20 kJavaToGamepadMap ! j \<in> set (take 20 kJavaToGamepadMap)"
      by (rule nth_mem)
    moreover from that have "take 20 kJavaToGamepadMap ! j = kJavaToGamepadMap ! j"
      by simp
    ultimately show ?thesis using unlisted by force
  qed
  then show ?thesis
    by (simp add: lookup_unfold loop_no_match)
qed

lemma key_event_updates_mapped_control:
  "GetGamepadCodeFromJavaKeyCode (control_code event) \<noteq> kInvalid \<Longrightarrow>
   event_code event = AKEY_EVENT_ACTION_DOWN \<or> event_code event = AKEY_EVENT_ACTION_UP \<Longrightarrow>
   \<exists>m' g. HandleGamepadEvent thr event m = Some m' \<and> m' (device_id event) = Some g \<and>
     is_down (button_list g (GetGamepadCodeFromJavaKeyCode (control_code event))) =
       (event_code event = AKEY_EVENT_ACTION_DOWN)"
  by (auto simp: HandleGamepadEvent_def Let_def key_event_result Update_def ACTION_defs
        split: prod.splits)

text \<open>
  Claim C4. Every key code of the table, \<^verbatim>\<open>AKEYCODE_MENU\<close> and
  \<^verbatim>\<open>AKEYCODE_BUTTON_MODE\<close> included, should map to its listed control, and a key event
  with it should update that control's button. The table has 22 entries and the loop
  stops after \<^verbatim>\<open>kControlCount\<close>, that is 20, of them: the code returns \<^verbatim>\<open>kInvalid\<close> for
  the last two key codes, and a key-down event with one of them does no more than
  \<^verbatim>\<open>GetGamepad\<close> does, so that no button changes.
\<close>

theorem menu_and_mode_keys_not_mapped:
  "GetGamepadCodeFromJavaKeyCode AKEYCODE_MENU = kInvalid \<and>
   GetGamepadCodeFromJavaKeyCode AKEYCODE_BUTTON_MODE = kInvalid \<and>
   HandleGamepadEvent thr
     \<lparr>device_id = d, event_code = AKEY_EVENT_ACTION_DOWN, control_code = AKEYCODE_MENU,
      event_x = x, event_y = y\<rparr> m = Some (snd (GetGamepad d m)) \<and>
   HandleGamepadEvent thr
     \<lparr>device_id = d, event_code = AKEY_EVENT_ACTION_DOWN, control_code = AKEYCODE_BUTTON_MODE,
      event_x = x, event_y = y\<rparr> m = Some (snd (GetGamepad d m))"
proof -
  have menu: "GetGamepadCodeFromJavaKeyCode AKEYCODE_MENU = kInvalid"
    by (simp add: lookup_unfold GetGamepadCode_loop.simps kJavaToGamepadMap_def AKEYCODE_defs)
  have mode: "GetGamepadCodeFromJavaKeyCode AKEYCODE_BUTTON_MODE = kInvalid"
    by (simp add: lookup_unfold GetGamepadCode_loop.simps kJavaToGamepadMap_def AKEYCODE_defs)
  show ?thesis
    by (simp add: menu mode HandleGamepadEvent_def split: prod.splits)
qed

subsection \<open>Gamepad motion\<close>

lemma GetGamepad_fst_snd:
  "snd (GetGamepad d m) d = Some (fst (GetGamepad d m))"
  by (simp add: GetGamepad_def Let_def split: option.splits)

text \<open>
  Claim C8. When \<^verbatim>\<open>HandleGamepadEvents\<close> processes a motion event with coordinates
  \<open>(x, y)\<close>, the four directional buttons of the device's gamepad are overwritten from the
  threshold comparisons, whatever they were before: \<^verbatim>\<open>kLeft\<close> is down iff \<open>x < - thr\<close>,
  \<^verbatim>\<open>kRight\<close> iff \<open>x > thr\<close>, \<^verbatim>\<open>kUp\<close> iff \<open>y < - thr\<close>, \<^verbatim>\<open>kDown\<close> iff \<open>y > thr\<close>, where
  \<open>thr\<close> is \<^verbatim>\<open>kGamepadHatThreshold\<close>.
\<close>

theorem motion_event_sets_directions:
  "event_code event = AMOTION_EVENT_ACTION_MOVE \<Longrightarrow>
   (\<exists>m' g. HandleGamepadEvent thr event m = Some m' \<and> m' (device_id event) = Some g \<and>
      is_down (button_list g kLeft) = (event_x event < - thr) \<and>
      is_down (button_list g kRight) = (event_x event > thr) \<and>
      is_down (button_list g kUp) = (event_y event < - thr) \<and>
      is_down (button_list g kDown) = (event_y event > thr))"
  by (simp add: motion_event_result motion_gamepad_def Update_def)

theorem motion_event_sets_directions_witness:
  "\<exists>m' g. HandleGamepadEvent (1 / 2)
        \<lparr>device_id = 7, event_code = AMOTION_EVENT_ACTION_MOVE, control_code = 0,
         event_x = 3 / 4, event_y = - 1\<rparr> Map.empty = Some m' \<and>
      m' 7 = Some g \<and>
      \<not> is_down (button_list g kLeft) \<and> is_down (button_list g kRight) \<and>
      is_down (button_list g kUp) \<and> \<not> is_down (button_list g kDown)"
  using motion_event_sets_directions [of
      "\<lparr>device_id = 7, event_code = AMOTION_EVENT_ACTION_MOVE, control_code = 0,
         event_x = 3 / 4, event_y = - 1\<rparr>" "1 / 2" Map.empty]
  by simp

text \<open>
  Claim C10. If \<^verbatim>\<open>kGamepadHatThreshold\<close> is not negative then, right after a motion
  event, \<^verbatim>\<open>kLeft\<close> and \<^verbatim>\<open>kRight\<close> are not both down, and \<^verbatim>\<open>kUp\<close> and \<^verbatim>\<open>kDown\<close> are
  not both down.
\<close>

theorem opposite_directions_exclusive:
  "0 \<le> thr \<Longrightarrow> event_code event = AMOTION_EVENT_ACTION_MOVE \<Longrightarrow>
   (\<exists>m' g. HandleGamepadEvent thr event m = Some m' \<and> m' (device_id event) = Some g \<and>
      \<not> (is_down (button_list g kLeft) \<and> is_down (button_list g kRight)) \<and>
      \<not> (is_down (button_list g kUp) \<and> is_down (button_list g kDown)))"
  by (simp add: motion_event_result motion_gamepad_def Update_def)

theorem opposite_directions_exclusive_witness:
  "\<exists>m' g. HandleGamepadEvent (1 / 2)
        \<lparr>device_id = 7, event_code = AMOTION_EVENT_ACTION_MOVE, control_code = 0,
         event_x = 3 / 4, event_y = - 1\<rparr> Map.empty = Some m' \<and>
      m' 7 = Some g \<and>
      \<not> (is_down (button_list g kLeft) \<and> is_down (button_list g kRight)) \<and>
      \<not> (is_down (button_list g kUp) \<and> is_down (button_list g kDown))"
  using opposite_directions_exclusive [of "1 / 2"
      "\<lparr>device_id = 7, event_code = AMOTION_EVENT_ACTION_MOVE, control_code = 0,
         event_x = 3 / 4, event_y = - 1\<rparr>" Map.empty]
  by simp

subsection \<open>Joystick hats and axes\<close>

text \<open>
  Claim C6. \<^verbatim>\<open>ConvertHatToVector\<close> is total: each of the nine hat positions maps to its
  vector, every other value maps to the zero vector, and the components of every result
  are -1, 0 or 1.
\<close>

theorem ConvertHatToVector_total:
  "ConvertHatToVector SDL_HAT_CENTERED = (0, 0) \<and>
   ConvertHatToVector SDL_HAT_UP = (0, -1) \<and>
   ConvertHatToVector SDL_HAT_RIGHTUP = (1, -1) \<and>
   ConvertHatToVector SDL_HAT_RIGHT = (1, 0) \<and>
   ConvertHatToVector SDL_HAT_RIGHTDOWN = (1, 1) \<and>
   ConvertHatToVector SDL_HAT_DOWN = (0, 1) \<and>
   ConvertHatToVector SDL_HAT_LEFTDOWN = (-1, 1) \<and>
   ConvertHatToVector SDL_HAT_LEFT = (-1, 0) \<and>
   ConvertHatToVector SDL_HAT_LEFTUP = (-1, -1) \<and>
   (\<forall>h. h \<notin> {SDL_HAT_CENTERED, SDL_HAT_UP, SDL_HAT_RIGHTUP, SDL_HAT_RIGHT, SDL_HAT_RIGHTDOWN,
              SDL_HAT_DOWN, SDL_HAT_LEFTDOWN, SDL_HAT_LEFT, SDL_HAT_LEFTUP} \<longrightarrow>
        ConvertHatToVector h = (0, 0)) \<and>
   (\<forall>h. fst (ConvertHatToVector h) \<in> {-1, 0, 1} \<and> snd (ConvertHatToVector h) \<in> {-1, 0, 1})"
  by (simp add: ConvertHatToVector_def SDL_HAT_defs)

theorem ConvertHatToVector_total_witness:
  "(5 :: 32 word) \<notin> {SDL_HAT_CENTERED, SDL_HAT_UP, SDL_HAT_RIGHTUP, SDL_HAT_RIGHT,
       SDL_HAT_RIGHTDOWN, SDL_HAT_DOWN, SDL_HAT_LEFTDOWN, SDL_HAT_LEFT, SDL_HAT_LEFTUP} \<and>
   ConvertHatToVector 5 = (0, 0)"
proof -
  have out: "(5 :: 32 word) \<notin> {SDL_HAT_CENTERED, SDL_HAT_UP, SDL_HAT_RIGHTUP, SDL_HAT_RIGHT,
       SDL_HAT_RIGHTDOWN, SDL_HAT_DOWN, SDL_HAT_LEFTDOWN, SDL_HAT_LEFT, SDL_HAT_LEFTUP}"
    by (simp add: SDL_HAT_defs)
  from ConvertHatToVector_total have
    "\<forall>h. h \<notin> {SDL_HAT_CENTERED, SDL_HAT_UP, SDL_HAT_RIGHTUP, SDL_HAT_RIGHT, SDL_HAT_RIGHTDOWN,
              SDL_HAT_DOWN, SDL_HAT_LEFTDOWN, SDL_HAT_LEFT, SDL_HAT_LEFTUP} \<longrightarrow>
        ConvertHatToVector h = (0, 0)"
    by blast
  with out show ?thesis by blast
qed

text \<open>
  The three values that the specification names, and the range for every raw value but
  the least.
\<close>

lemma axis_named_values:
  "axis_list (HandleJoystickEvent (SDL_JOYAXISMOTION which axis 32767) jm which) (unat axis) = 1"
  "axis_list (HandleJoystickEvent (SDL_JOYAXISMOTION which axis (- 32767)) jm which) (unat axis) = - 1"
  "axis_list (HandleJoystickEvent (SDL_JOYAXISMOTION which axis 0) jm which) (unat axis) = 0"
  by (simp_all add: SetAxis_def kJoystickAxisRange_def)

lemma axis_in_range_above_minimum:
  "v \<noteq> - 32768 \<Longrightarrow>
   - 1 \<le> axis_list (HandleJoystickEvent (SDL_JOYAXISMOTION which axis v) jm which) (unat axis) \<and>
   axis_list (HandleJoystickEvent (SDL_JOYAXISMOTION which axis v) jm which) (unat axis) \<le> 1"
proof -
  assume "v \<noteq> - 32768"
  have "sint v < 32768" "- 32768 \<le> sint v"
    using sint_lt [of v] sint_ge [of v] by simp_all
  moreover have "sint v \<noteq> - 32768"
  proof
    assume "sint v = - 32768"
    then have "word_of_int (sint v) = (word_of_int (- 32768) :: 16 word)" by simp
    then have "v = - 32768" by simp
    with \<open>v \<noteq> - 32768\<close> show False by simp
  qed
  ultimately have "- 32767 \<le> sint v \<and> sint v \<le> 32767" by arith
  then have "- 32767 \<le> real_of_int (sint v) \<and> real_of_int (sint v) \<le> 32767"
    by (metis of_int_le_iff of_int_numeral of_int_minus)
  then show ?thesis
    by (simp add: SetAxis_def kJoystickAxisRange_def field_simps)
qed

text \<open>
  Claim C7. An axis event stores \<open>raw / 32767\<close>, and the stored value should lie in
  \<open>[-1, 1]\<close> for every raw value that the platform delivers. The raw value is a signed
  16-bit integer; for the least one, -32768, the code stores \<open>- 32768 / 32767\<close>, which is
  below -1.
\<close>

theorem axis_minimum_outside_range:
  "axis_list (HandleJoystickEvent (SDL_JOYAXISMOTION which axis (- 32768)) jm which)
     (unat axis) = - 32768 / 32767 \<and>
   axis_list (HandleJoystickEvent (SDL_JOYAXISMOTION which axis (- 32768)) jm which)
     (unat axis) < - 1"
  by (simp add: SetAxis_def kJoystickAxisRange_def)

subsection \<open>Head tracking\<close>

lemma pre_correction_cross_cases:
  "d \<in> {0, 1, 2, 3} \<Longrightarrow> r \<in> {0, 1, 2, 3} \<Longrightarrow>
   snd (corrections d r) =
     (if cross_case d r
      then mat_mul (snd (corrections d d)) (FromRotationMatrix (RotationY pi))
      else snd (corrections d d))"
  by (auto simp: corrections_def cross_case_def RotationY_def Identity_def Let_def)

lemma half_turn_changes_pre_correction:
  "d \<in> {0, 1, 2, 3} \<Longrightarrow>
   mat_mul (snd (corrections d d)) (FromRotationMatrix (RotationY pi)) \<noteq> snd (corrections d d)"
  by (auto simp: corrections_def RotationY_def Identity_def Let_def)

lemma post_correction_by_orientation:
  "fst (corrections d r) = fst (corrections d d)"
  by (simp add: corrections_def Let_def)

lemma UpdateTransforms_corrected:
  "use_device_orientation_correction h \<Longrightarrow>
   UpdateTransforms a b c h =
     h\<lparr>head_transform :=
         mat_mul (mat_mul (fst (corrections (device_orientation h) (device_orientation_at_reset h))) a)
           (snd (corrections (device_orientation h) (device_orientation_at_reset h))),
       left_eye_transform :=
         mat_mul (mat_mul (fst (corrections (device_orientation h) (device_orientation_at_reset h))) b)
           (snd (corrections (device_orientation h) (device_orientation_at_reset h))),
       right_eye_transform :=
         mat_mul (mat_mul (fst (corrections (device_orientation h) (device_orientation_at_reset h))) c)
           (snd (corrections (device_orientation h) (device_orientation_at_reset h)))\<rparr>"
  by (simp add: UpdateTransforms_def Let_def split: prod.splits)

text \<open>
  Claim C2. With orientation correction enabled, the extra half turn of the pre-rotation
  is applied exactly in the cross cases (0, 180), (180, 0), (90, 270) and (270, 90) of the
  current orientation and the orientation at the last reset, and the final transform is
  \<open>post_correction * raw_transform * pre_correction\<close> for the head and both eyes.

  The table entry of an orientation \<open>d\<close> is the pair \<open>corrections d d\<close> that the switch
  yields without a mismatch. For the four orientations \<open>d\<close> and \<open>r\<close> (0, 1, 2, 3 for 0, 90,
  180, 270 degrees): the post-rotation of \<open>corrections d r\<close> is the table's; its
  pre-rotation is the table's times the rotation by \<open>pi\<close> about the y axis in the cross
  cases and the table's otherwise, and the two differ. For 270 degrees the code writes the
  product out: the identity when the reset was at 90 degrees, the rotation by \<open>- pi\<close>
  otherwise. \<^verbatim>\<open>UpdateTransforms\<close> multiplies each of the three raw transforms by the pair
  that the switch yields for the orientations of the object: from the left by its
  post-rotation, from the right by its pre-rotation; for the four orientations that is the
  table's post-rotation and the table's pre-rotation, with the half turn in the cross
  cases only.
\<close>

theorem orientation_correction_cross_cases:
  "(\<forall>d\<in>{0, 1, 2, 3}. \<forall>r\<in>{0, 1, 2, 3}.
      snd (corrections d r) =
        (if cross_case d r
         then mat_mul (snd (corrections d d)) (FromRotationMatrix (RotationY pi))
         else snd (corrections d d)) \<and>
      fst (corrections d r) = fst (corrections d d) \<and>
      mat_mul (snd (corrections d d)) (FromRotationMatrix (RotationY pi)) \<noteq> snd (corrections d d)) \<and>
   (use_device_orientation_correction h \<longrightarrow>
      head_transform (UpdateTransforms a b c h) =
        mat_mul (mat_mul (fst (corrections (device_orientation h) (device_orientation_at_reset h))) a)
          (snd (corrections (device_orientation h) (device_orientation_at_reset h))) \<and>
      left_eye_transform (UpdateTransforms a b c h) =
        mat_mul (mat_mul (fst (corrections (device_orientation h) (device_orientation_at_reset h))) b)
          (snd (corrections (device_orientation h) (device_orientation_at_reset h))) \<and>
      right_eye_transform (UpdateTransforms a b c h) =
        mat_mul (mat_mul (fst (corrections (device_orientation h) (device_orientation_at_reset h))) c)
          (snd (corrections (device_orientation h) (device_orientation_at_reset h)))) \<and>
   (use_device_orientation_correction h \<and> device_orientation h \<in> {0, 1, 2, 3} \<and>
    device_orientation_at_reset h \<in> {0, 1, 2, 3} \<longrightarrow>
      head_transform (UpdateTransforms a b c h) =
        mat_mul (mat_mul (fst (corrections (device_orientation h) (device_orientation h))) a)
          (if cross_case (device_orientation h) (device_orientation_at_reset h)
           then mat_mul (snd (corrections (device_orientation h) (device_orientation h)))
                  (FromRotationMatrix (RotationY pi))
           else snd (corrections (device_orientation h) (device_orientation h))) \<and>
      left_eye_transform (UpdateTransforms a b c h) =
        mat_mul (mat_mul (fst (corrections (device_orientation h) (device_orientation h))) b)
          (if cross_case (device_orientation h) (device_orientation_at_reset h)
           then mat_mul (snd (corrections (device_orientation h) (device_orientation h)))
                  (FromRotationMatrix (RotationY pi))
           else snd (corrections (device_orientation h) (device_orientation h))) \<and>
      right_eye_transform (UpdateTransforms a b c h) =
        mat_mul (mat_mul (fst (corrections (device_orientation h) (device_orientation h))) c)
          (if cross_case (device_orientation h) (device_orientation_at_reset h)
           then mat_mul (snd (corrections (device_orientation h) (device_orientation h)))
                  (FromRotationMatrix (RotationY pi))
           else snd (corrections (device_orientation h) (device_orientation h))))"
proof (intro conjI)
  show "\<forall>d\<in>{0, 1, 2, 3}. \<forall>r\<in>{0, 1, 2, 3}.
      snd (corrections d r) =
        (if cross_case d r
         then mat_mul (snd (corrections d d)) (FromRotationMatrix (RotationY pi))
         else snd (corrections d d)) \<and>
      fst (corrections d r) = fst (corrections d d) \<and>
      mat_mul (snd (corrections d d)) (FromRotationMatrix (RotationY pi)) \<noteq> snd (corrections d d)"
  proof (intro ballI conjI)
    fix d r :: int
    assume d: "d \<in> {0, 1, 2, 3}" and r: "r \<in> {0, 1, 2, 3}"
    show "snd (corrections d r) =
        (if cross_case d r
         then mat_mul (snd (corrections d d)) (FromRotationMatrix (RotationY pi))
         else snd (corrections d d))"
      using d r by (rule pre_correction_cross_cases)
    show "fst (corrections d r) = fst (corrections d d)"
      by (rule post_correction_by_orientation)
    show "mat_mul (snd (corrections d d)) (FromRotationMatrix (RotationY pi)) \<noteq> snd (corrections d d)"
      using d by (rule half_turn_changes_pre_correction)
  qed
next
  show "use_device_orientation_correction h \<longrightarrow>
      head_transform (UpdateTransforms a b c h) =
        mat_mul (mat_mul (fst (corrections (device_orientation h) (device_orientation_at_reset h))) a)
          (snd (corrections (device_orientation h) (device_orientation_at_reset h))) \<and>
      left_eye_transform (UpdateTransforms a b c h) =
        mat_mul (mat_mul (fst (corrections (device_orientation h) (device_orientation_at_reset h))) b)
          (snd (corrections (device_orientation h) (device_orientation_at_reset h))) \<and>
      right_eye_transform (UpdateTransforms a b c h) =
        mat_mul (mat_mul (fst (corrections (device_orientation h) (device_orientation_at_reset h))) c)
          (snd (corrections (device_orientation h) (device_orientation_at_reset h)))"
  proof
    assume "use_device_orientation_correction h"
    then show "head_transform (UpdateTransforms a b c h) =
        mat_mul (mat_mul (fst (corrections (device_orientation h) (device_orientation_at_reset h))) a)
          (snd (corrections (device_orientation h) (device_orientation_at_reset h))) \<and>
      left_eye_transform (UpdateTransforms a b c h) =
        mat_mul (mat_mul (fst (corrections (device_orientation h) (device_orientation_at_reset h))) b)
          (snd (corrections (device_orientation h) (device_orientation_at_reset h))) \<and>
      right_eye_transform (UpdateTransforms a b c h) =
        mat_mul (mat_mul (fst (corrections (device_orientation h) (device_orientation_at_reset h))) c)
          (snd (corrections (device_orientation h) (device_orientation_at_reset h)))"
      by (simp only: UpdateTransforms_corrected) simp
  qed
next
  show "use_device_orientation_correction h \<and> device_orientation h \<in> {0, 1, 2, 3} \<and>
    device_orientation_at_reset h \<in> {0, 1, 2, 3} \<longrightarrow>
      head_transform (UpdateTransforms a b c h) =
        mat_mul (mat_mul (fst (corrections (device_orientation h) (device_orientation h))) a)
          (if cross_case (device_orientation h) (device_orientation_at_reset h)
           then mat_mul (snd (corrections (device_orientation h) (device_orientation h)))
                  (FromRotationMatrix (RotationY pi))
           else snd (corrections (device_orientation h) (device_orientation h))) \<and>
      left_eye_transform (UpdateTransforms a b c h) =
        mat_mul (mat_mul (fst (corrections (device_orientation h) (device_orientation h))) b)
          (if cross_case (device_orientation h) (device_orientation_at_reset h)
           then mat_mul (snd (corrections (device_orientation h) (device_orientation h)))
                  (FromRotationMatrix (RotationY pi))
           else snd (corrections (device_orientation h) (device_orientation h))) \<and>
      right_eye_transform (UpdateTransforms a b c h) =
        mat_mul (mat_mul (fst (corrections (device_orientation h) (device_orientation h))) c)
          (if cross_case (device_orientation h) (device_orientation_at_reset h)
           then mat_mul (snd (corrections (device_orientation h) (device_orientation h)))
                  (FromRotationMatrix (RotationY pi))
           else snd (corrections (device_orientation h) (device_orientation h)))"
  proof
    assume on: "use_device_orientation_correction h \<and> device_orientation h \<in> {0, 1, 2, 3} \<and>
      device_orientation_at_reset h \<in> {0, 1, 2, 3}"
    from on have enabled: "use_device_orientation_correction h"
      and d: "device_orientation h \<in> {0, 1, 2, 3}"
      and r: "device_orientation_at_reset h \<in> {0, 1, 2, 3}"
      by blast+
    define post where "post = fst (corrections (device_orientation h) (device_orientation_at_reset h))"
    define pre where "pre = snd (corrections (device_orientation h) (device_orientation_at_reset h))"
    have pre_eq: "pre =
        (if cross_case (device_orientation h) (device_orientation_at_reset h)
         then mat_mul (snd (corrections (device_orientation h) (device_orientation h)))
                (FromRotationMatrix (RotationY pi))
         else snd (corrections (device_orientation h) (device_orientation h)))"
      unfolding pre_def using d r by (rule pre_correction_cross_cases)
    have post_eq: "post = fst (corrections (device_orientation h) (device_orientation h))"
      unfolding post_def by (rule post_correction_by_orientation)
    have result: "UpdateTransforms a b c h =
      h\<lparr>head_transform := mat_mul (mat_mul post a) pre,
        left_eye_transform := mat_mul (mat_mul post b) pre,
        right_eye_transform := mat_mul (mat_mul post c) pre\<rparr>"
      unfolding post_def pre_def using enabled by (rule UpdateTransforms_corrected)
    have "head_transform (UpdateTransforms a b c h) = mat_mul (mat_mul post a) pre"
      and "left_eye_transform (UpdateTransforms a b c h) = mat_mul (mat_mul post b) pre"
      and "right_eye_transform (UpdateTransforms a b c h) = mat_mul (mat_mul post c) pre"
      unfolding result by simp_all
    then show "head_transform (UpdateTransforms a b c h) =
        mat_mul (mat_mul (fst (corrections (device_orientation h) (device_orientation h))) a)
          (if cross_case (device_orientation h) (device_orientation_at_reset h)
           then mat_mul (snd (corrections (device_orientation h) (device_orientation h)))
                  (FromRotationMatrix (RotationY pi))
           else snd (corrections (device_orientation h) (device_orientation h))) \<and>
      left_eye_transform (UpdateTransforms a b c h) =
        mat_mul (mat_mul (fst (corrections (device_orientation h) (device_orientation h))) b)
          (if cross_case (device_orientation h) (device_orientation_at_reset h)
           then mat_mul (snd (corrections (device_orientation h) (device_orientation h)))
                  (FromRotationMatrix (RotationY pi))
           else snd (corrections (device_orientation h) (device_orientation h))) \<and>
      right_eye_transform (UpdateTransforms a b c h) =
        mat_mul (mat_mul (fst (corrections (device_orientation h) (device_orientation h))) c)
          (if cross_case (device_orientation h) (device_orientation_at_reset h)
           then mat_mul (snd (corrections (device_orientation h) (device_orientation h)))
                  (FromRotationMatrix (RotationY pi))
           else snd (corrections (device_orientation h) (device_orientation h)))"
      unfolding pre_eq [symmetric] post_eq [symmetric] by (intro conjI)
  qed
qed

text \<open>
  The cross case (0, 180) on three different raw transforms (a translation for the head,
  two scalings for the eyes): the pre-rotation is the table's quarter turn times the half
  turn, and each result is the product of the three matrices in the order post, raw, pre.
  Without the mismatch the head transform is another matrix.
\<close>

theorem orientation_correction_cross_cases_witness:
  "snd (corrections 0 2) = mat_mul (snd (corrections 0 0)) (FromRotationMatrix (RotationY pi)) \<and>
   snd (corrections 0 2) = ((0, 0, - 1, 0), (0, 1, 0, 0), (1, 0, 0, 0), (0, 0, 0, 1)) \<and>
   snd (corrections 0 0) = ((0, 0, 1, 0), (0, 1, 0, 0), (- 1, 0, 0, 0), (0, 0, 0, 1)) \<and>
   fst (corrections 0 2) = ((0, 1, 0, 0), (- 1, 0, 0, 0), (0, 0, 1, 0), (0, 0, 0, 1)) \<and>
   head_transform (UpdateTransforms
       ((1, 0, 0, 5), (0, 1, 0, 0), (0, 0, 1, 0), (0, 0, 0, 1))
       ((2, 0, 0, 0), (0, 1, 0, 0), (0, 0, 1, 0), (0, 0, 0, 1))
       ((1, 0, 0, 0), (0, 1, 0, 0), (0, 0, 3, 0), (0, 0, 0, 1))
       (HeadMountedDisplayInput_new\<lparr>device_orientation := 0, device_orientation_at_reset := 2,
          use_device_orientation_correction := True\<rparr>)) =
     ((0, 1, 0, 0), (0, 0, 1, - 5), (1, 0, 0, 0), (0, 0, 0, 1)) \<and>
   left_eye_transform (UpdateTransforms
       ((1, 0, 0, 5), (0, 1, 0, 0), (0, 0, 1, 0), (0, 0, 0, 1))
       ((2, 0, 0, 0), (0, 1, 0, 0), (0, 0, 1, 0), (0, 0, 0, 1))
       ((1, 0, 0, 0), (0, 1, 0, 0), (0, 0, 3, 0), (0, 0, 0, 1))
       (HeadMountedDisplayInput_new\<lparr>device_orientation := 0, device_orientation_at_reset := 2,
          use_device_orientation_correction := True\<rparr>)) =
     ((0, 1, 0, 0), (0, 0, 2, 0), (1, 0, 0, 0), (0, 0, 0, 1)) \<and>
   right_eye_transform (UpdateTransforms
       ((1, 0, 0, 5), (0, 1, 0, 0), (0, 0, 1, 0), (0, 0, 0, 1))
       ((2, 0, 0, 0), (0, 1, 0, 0), (0, 0, 1, 0), (0, 0, 0, 1))
       ((1, 0, 0, 0), (0, 1, 0, 0), (0, 0, 3, 0), (0, 0, 0, 1))
       (HeadMountedDisplayInput_new\<lparr>device_orientation := 0, device_orientation_at_reset := 2,
          use_device_orientation_correction := True\<rparr>)) =
     ((0, 1, 0, 0), (0, 0, 1, 0), (3, 0, 0, 0), (0, 0, 0, 1)) \<and>
   head_transform (UpdateTransforms
       ((1, 0, 0, 5), (0, 1, 0, 0), (0, 0, 1, 0), (0, 0, 0, 1))
       ((2, 0, 0, 0), (0, 1, 0, 0), (0, 0, 1, 0), (0, 0, 0, 1))
       ((1, 0, 0, 0), (0, 1, 0, 0), (0, 0, 3, 0), (0, 0, 0, 1))
       (HeadMountedDisplayInput_new\<lparr>device_orientation := 0, device_orientation_at_reset := 0,
          use_device_orientation_correction := True\<rparr>)) =
     ((0, 1, 0, 0), (0, 0, - 1, - 5), (- 1, 0, 0, 0), (0, 0, 0, 1))"
proof -
  let ?a = "((1, 0, 0, 5), (0, 1, 0, 0), (0, 0, 1, 0), (0, 0, 0, 1)) :: mat4"
  let ?b = "((2, 0, 0, 0), (0, 1, 0, 0), (0, 0, 1, 0), (0, 0, 0, 1)) :: mat4"
  let ?c = "((1, 0, 0, 0), (0, 1, 0, 0), (0, 0, 3, 0), (0, 0, 0, 1)) :: mat4"
  let ?h = "HeadMountedDisplayInput_new\<lparr>device_orientation := 0,
      device_orientation_at_reset := 2, use_device_orientation_correction := True\<rparr>"
  let ?k = "HeadMountedDisplayInput_new\<lparr>device_orientation := 0,
      device_orientation_at_reset := 0, use_device_orientation_correction := True\<rparr>"
  let ?R = "FromRotationMatrix (RotationY pi)"
  note crossed = orientation_correction_cross_cases [of ?h ?a ?b ?c]
  note matched = orientation_correction_cross_cases [of ?k ?a ?b ?c]
  have table_pre: "snd (corrections 0 0) = ((0, 0, 1, 0), (0, 1, 0, 0), (- 1, 0, 0, 0), (0, 0, 0, 1))"
    by (simp add: corrections_def RotationY_def)
  have table_post: "fst (corrections 0 0) = ((0, 1, 0, 0), (- 1, 0, 0, 0), (0, 0, 1, 0), (0, 0, 0, 1))"
    by (simp add: corrections_def RotationZ_def)
  have half_turn: "?R = ((- 1, 0, 0, 0), (0, 1, 0, 0), (0, 0, - 1, 0), (0, 0, 0, 1))"
    by (simp add: RotationY_def)
  have cross: "cross_case 0 2" and no_cross: "\<not> cross_case 0 0"
    by (simp_all add: cross_case_def)
  have in0: "(0 :: int) \<in> {0, 1, 2, 3}" and in2: "(2 :: int) \<in> {0, 1, 2, 3}"
    by simp_all
  from crossed [THEN conjunct1, THEN bspec, OF in0, THEN bspec, OF in2]
  have pre: "snd (corrections 0 2) = mat_mul (snd (corrections 0 0)) ?R"
    and post: "fst (corrections 0 2) = fst (corrections 0 0)"
    by (simp_all only: cross if_True)
  have sel_h: "use_device_orientation_correction ?h \<and> device_orientation ?h \<in> {0, 1, 2, 3} \<and>
      device_orientation_at_reset ?h \<in> {0, 1, 2, 3}"
    by simp
  have sel_k: "use_device_orientation_correction ?k \<and> device_orientation ?k \<in> {0, 1, 2, 3} \<and>
      device_orientation_at_reset ?k \<in> {0, 1, 2, 3}"
    by simp
  have fields_h: "device_orientation ?h = 0" "device_orientation_at_reset ?h = 2"
    by simp_all
  have fields_k: "device_orientation ?k = 0" "device_orientation_at_reset ?k = 0"
    by simp_all
  from crossed [THEN conjunct2, THEN conjunct2, THEN mp, OF sel_h]
  have head: "head_transform (UpdateTransforms ?a ?b ?c ?h) =
      mat_mul (mat_mul (fst (corrections 0 0)) ?a) (mat_mul (snd (corrections 0 0)) ?R)"
    and left: "left_eye_transform (UpdateTransforms ?a ?b ?c ?h) =
      mat_mul (mat_mul (fst (corrections 0 0)) ?b) (mat_mul (snd (corrections 0 0)) ?R)"
    and right: "right_eye_transform (UpdateTransforms ?a ?b ?c ?h) =
      mat_mul (mat_mul (fst (corrections 0 0)) ?c) (mat_mul (snd (corrections 0 0)) ?R)"
    by (simp_all only: fields_h cross if_True)
  from matched [THEN conjunct2, THEN conjunct2, THEN mp, OF sel_k]
  have plain: "head_transform (UpdateTransforms ?a ?b ?c ?k) =
      mat_mul (mat_mul (fst (corrections 0 0)) ?a) (snd (corrections 0 0))"
    by (simp only: fields_k no_cross if_False)
  have products:
    "mat_mul ((0, 0, 1, 0), (0, 1, 0, 0), (- 1, 0, 0, 0), (0, 0, 0, 1))
       ((- 1, 0, 0, 0), (0, 1, 0, 0), (0, 0, - 1, 0), (0, 0, 0, 1)) =
     (((0, 0, - 1, 0), (0, 1, 0, 0), (1, 0, 0, 0), (0, 0, 0, 1)) :: mat4)"
    "mat_mul (mat_mul ((0, 1, 0, 0), (- 1, 0, 0, 0), (0, 0, 1, 0), (0, 0, 0, 1)) ?a)
       ((0, 0, - 1, 0), (0, 1, 0, 0), (1, 0, 0, 0), (0, 0, 0, 1)) =
     (((0, 1, 0, 0), (0, 0, 1, - 5), (1, 0, 0, 0), (0, 0, 0, 1)) :: mat4)"
    "mat_mul (mat_mul ((0, 1, 0, 0), (- 1, 0, 0, 0), (0, 0, 1, 0), (0, 0, 0, 1)) ?b)
       ((0, 0, - 1, 0), (0, 1, 0, 0), (1, 0, 0, 0), (0, 0, 0, 1)) =
     (((0, 1, 0, 0), (0, 0, 2, 0), (1, 0, 0, 0), (0, 0, 0, 1)) :: mat4)"
    "mat_mul (mat_mul ((0, 1, 0, 0), (- 1, 0, 0, 0), (0, 0, 1, 0), (0, 0, 0, 1)) ?c)
       ((0, 0, - 1, 0), (0, 1, 0, 0), (1, 0, 0, 0), (0, 0, 0, 1)) =
     (((0, 1, 0, 0), (0, 0, 1, 0), (3, 0, 0, 0), (0, 0, 0, 1)) :: mat4)"
    "mat_mul (mat_mul ((0, 1, 0, 0), (- 1, 0, 0, 0), (0, 0, 1, 0), (0, 0, 0, 1)) ?a)
       ((0, 0, 1, 0), (0, 1, 0, 0), (- 1, 0, 0, 0), (0, 0, 0, 1)) =
     (((0, 1, 0, 0), (0, 0, - 1, - 5), (- 1, 0, 0, 0), (0, 0, 0, 1)) :: mat4)"
    by simp_all
  show ?thesis
    unfolding pre post head left right plain table_pre table_post half_turn products
    by (intro conjI refl)
qed

subsection \<open>Mouse and touch events\<close>

lemma mouse_button_result:
  "pointers s = p # ps \<Longrightarrow>
   UpdateEvent cfg (SDL_MOUSEBUTTON button st w x y) s =
     Some (s\<lparr>touch_device := False,
             pointer_button := (pointer_button s)
               (size_t_of_int (uint button - 1) :=
                  Update (st = SDL_PRESSED) (pointer_button s (size_t_of_int (uint button - 1)))),
             calls := calls s @
               [Call_GetPointerButton_Update (size_t_of_int (uint button - 1)) (st = SDL_PRESSED)],
             pointers := p\<lparr>mousepos := (if w = 0 then mousepos p else (x, y)), used := True\<rparr> # ps,
             head_mounted_display_input :=
               (if FPLBASE_ANDROID_VR cfg \<and> st = SDL_PRESSED
                then OnTrigger (head_mounted_display_input s)
                else head_mounted_display_input s)\<rparr>)"
  by (simp add: GetPointerButton_Update_def update_pointer0_def Let_def)

lemma mouse_motion_result:
  "pointers s = p # ps \<Longrightarrow>
   UpdateEvent cfg (SDL_MOUSEMOTION x y xrel yrel) s =
     Some (if PLATFORM_MOBILE cfg then s
           else s\<lparr>touch_device := False,
                  pointers := p\<lparr>mousedelta := vec2i_add (mousedelta p) (xrel, yrel),
                                mousepos := (x, y)\<rparr> # ps\<rparr>)"
  by (simp add: update_pointer0_def)

lemma left_button_only:
  "(size_t_of_int (uint (button :: 8 word) - 1) = 0) = (button = 1)"
proof (cases "button = 0")
  case True
  then show ?thesis by (simp add: size_t_of_int_def)
next
  case False
  then have "uint button \<noteq> 0" by (simp add: uint_0_iff)
  then have pos: "0 \<le> uint button - 1" using uint_ge_0 [of button] by arith
  have "uint button < 2 ^ 8" using uint_lt2p [of button] by simp
  then have "uint button - 1 < 2 ^ 64" by simp
  with pos have "(uint button - 1) mod 2 ^ 64 = uint button - 1" by simp
  then have "(size_t_of_int (uint button - 1) = 0) = (uint button = 1)"
    using pos by (auto simp: size_t_of_int_def)
  also have "\<dots> = (button = 1)" by (simp add: word_uint_eq_iff)
  finally show ?thesis .
qed

text \<open>
  Claim C9, as stated: a mouse button event whose \<^verbatim>\<open>windowID\<close> is 0 leaves
  \<^verbatim>\<open>pointers_[0].mousepos\<close> unchanged, and only the button state and the used flag
  change. The left button pressed with \<^verbatim>\<open>windowID\<close> 0 on a build with
  \<^verbatim>\<open>FPLBASE_ANDROID_VR\<close>, after a touch has set \<^verbatim>\<open>touch_device_\<close>: the position stays,
  the button goes down and the slot is marked used, and besides \<^verbatim>\<open>touch_device_\<close> is
  cleared and the trigger of the head mounted display is latched.
\<close>

theorem mouse_button_frame_counterexample:
  "UpdateEvent android_vr_build (SDL_MOUSEBUTTON 1 SDL_PRESSED 0 10 20)
     (InputSystem_new\<lparr>touch_device := True\<rparr>) =
     Some (InputSystem_new
       \<lparr>touch_device := False,
        pointers := [InputPointer_new\<lparr>used := True\<rparr>, InputPointer_new],
        pointer_button := (pointer_button InputSystem_new)
          (0 := \<lparr>is_down = True, went_down = True, went_up = False\<rparr>),
        head_mounted_display_input := HeadMountedDisplayInput_new\<lparr>pending_trigger := True\<rparr>,
        calls := [Call_GetPointerButton_Update 0 True]\<rparr>) \<and>
   touch_device (InputSystem_new\<lparr>touch_device := True\<rparr>) \<and>
   head_mounted_display_input (InputSystem_new\<lparr>touch_device := True\<rparr>) =
     HeadMountedDisplayInput_new \<and>
   \<not> pending_trigger HeadMountedDisplayInput_new \<and>
   pending_trigger (HeadMountedDisplayInput_new\<lparr>pending_trigger := True\<rparr>)"
  by (simp add: size_t_of_int_def android_vr_build_def InputSystem_new_def InputPointer_new_def
      Button_new_def GetPointerButton_Update_def update_pointer0_def Update_def SDL_PRESSED_def
      OnTrigger_def HeadMountedDisplayInput_new_def)

text \<open>
  Claim C9, amended. A mouse button event whose \<^verbatim>\<open>windowID\<close> is 0 leaves
  \<^verbatim>\<open>pointers_[0].mousepos\<close> unchanged, and one with another \<^verbatim>\<open>windowID\<close> overwrites it
  with the event's \<open>(x, y)\<close>. Besides, the event changes the state of the pointer button
  with index \<^verbatim>\<open>button - 1\<close> and the used flag of slot 0, clears \<^verbatim>\<open>touch_device_\<close> and,
  on a build with \<^verbatim>\<open>FPLBASE_ANDROID_VR\<close> when the button is pressed, latches the trigger
  of the head mounted display; the rest of the pointer table, the other buttons, the wheel
  delta, the joysticks and the exit flag stay as they were.
\<close>

theorem mouse_button_position_frame:
  "pointers s = p # ps \<Longrightarrow>
   (\<exists>s'. UpdateEvent cfg (SDL_MOUSEBUTTON button st w x y) s = Some s' \<and>
      pointers s' = p\<lparr>mousepos := (if w = 0 then mousepos p else (x, y)), used := True\<rparr> # ps \<and>
      pointer_button s' = (pointer_button s)
        (size_t_of_int (uint button - 1) :=
           Update (st = SDL_PRESSED) (pointer_button s (size_t_of_int (uint button - 1)))) \<and>
      \<not> touch_device s' \<and>
      head_mounted_display_input s' =
        (if FPLBASE_ANDROID_VR cfg \<and> st = SDL_PRESSED
         then (head_mounted_display_input s)\<lparr>pending_trigger := True\<rparr>
         else head_mounted_display_input s) \<and>
      calls s' = calls s @
        [Call_GetPointerButton_Update (size_t_of_int (uint button - 1)) (st = SDL_PRESSED)] \<and>
      mousewheel_delta s' = mousewheel_delta s \<and> exit_requested s' = exit_requested s \<and>
      joystick_map s' = joystick_map s)"
  by (simp add: mouse_button_result OnTrigger_def del: UpdateEvent.simps)

theorem mouse_button_position_frame_witness:
  "(\<exists>s'. UpdateEvent android_vr_build (SDL_MOUSEBUTTON 1 SDL_PRESSED 0 10 20)
            (InputSystem_new\<lparr>touch_device := True\<rparr>) = Some s' \<and>
      pointers s' = [InputPointer_new\<lparr>used := True\<rparr>, InputPointer_new] \<and>
      mousepos (hd (pointers s')) = (0, 0) \<and>
      \<not> touch_device s' \<and>
      head_mounted_display_input s' = HeadMountedDisplayInput_new\<lparr>pending_trigger := True\<rparr>) \<and>
   (\<exists>s'. UpdateEvent desktop_build (SDL_MOUSEBUTTON 1 SDL_PRESSED 4 10 20) InputSystem_new = Some s' \<and>
      pointers s' = [InputPointer_new\<lparr>mousepos := (10, 20), used := True\<rparr>, InputPointer_new] \<and>
      head_mounted_display_input s' = HeadMountedDisplayInput_new)"
proof -
  let ?t = "InputSystem_new\<lparr>touch_device := True\<rparr>"
  have slots: "pointers InputSystem_new = InputPointer_new # [InputPointer_new]"
    by (simp add: InputSystem_new_def)
  have slots_t: "pointers ?t = InputPointer_new # [InputPointer_new]"
    by (simp add: InputSystem_new_def)
  have vr: "FPLBASE_ANDROID_VR android_vr_build" "\<not> FPLBASE_ANDROID_VR desktop_build"
    by (simp_all add: android_vr_build_def desktop_build_def)
  have hmd: "head_mounted_display_input ?t = HeadMountedDisplayInput_new"
    "head_mounted_display_input InputSystem_new = HeadMountedDisplayInput_new"
    by (simp_all add: InputSystem_new_def)
  from mouse_button_position_frame [OF slots_t, of android_vr_build 1 SDL_PRESSED 0 10 20]
  obtain s1 where s1:
    "UpdateEvent android_vr_build (SDL_MOUSEBUTTON 1 SDL_PRESSED 0 10 20) ?t = Some s1"
    "pointers s1 = InputPointer_new\<lparr>mousepos := (if (0 :: 32 word) = 0 then mousepos InputPointer_new
         else (10, 20)), used := True\<rparr> # [InputPointer_new]"
    "\<not> touch_device s1"
    "head_mounted_display_input s1 =
       (if FPLBASE_ANDROID_VR android_vr_build \<and> SDL_PRESSED = SDL_PRESSED
        then (head_mounted_display_input ?t)\<lparr>pending_trigger := True\<rparr>
        else head_mounted_display_input ?t)"
    by blast
  from mouse_button_position_frame [OF slots, of desktop_build 1 SDL_PRESSED 4 10 20]
  obtain s2 where s2:
    "UpdateEvent desktop_build (SDL_MOUSEBUTTON 1 SDL_PRESSED 4 10 20) InputSystem_new = Some s2"
    "pointers s2 = InputPointer_new\<lparr>mousepos := (if (4 :: 32 word) = 0 then mousepos InputPointer_new
         else (10, 20)), used := True\<rparr> # [InputPointer_new]"
    "head_mounted_display_input s2 =
       (if FPLBASE_ANDROID_VR desktop_build \<and> SDL_PRESSED = SDL_PRESSED
        then (head_mounted_display_input InputSystem_new)\<lparr>pending_trigger := True\<rparr>
        else head_mounted_display_input InputSystem_new)"
    by blast
  have first: "\<exists>s'. UpdateEvent android_vr_build (SDL_MOUSEBUTTON 1 SDL_PRESSED 0 10 20) ?t = Some s' \<and>
      pointers s' = [InputPointer_new\<lparr>used := True\<rparr>, InputPointer_new] \<and>
      mousepos (hd (pointers s')) = (0, 0) \<and>
      \<not> touch_device s' \<and>
      head_mounted_display_input s' = HeadMountedDisplayInput_new\<lparr>pending_trigger := True\<rparr>"
    using s1 vr hmd by (intro exI [of _ s1]) (simp add: InputPointer_new_def)
  have second: "\<exists>s'. UpdateEvent desktop_build (SDL_MOUSEBUTTON 1 SDL_PRESSED 4 10 20) InputSystem_new = Some s' \<and>
      pointers s' = [InputPointer_new\<lparr>mousepos := (10, 20), used := True\<rparr>, InputPointer_new] \<and>
      head_mounted_display_input s' = HeadMountedDisplayInput_new"
    using s2 vr hmd by (intro exI [of _ s2]) simp
  from first second show ?thesis by blast
qed

text \<open>
  Claim C1, as stated: for every mouse button event the button that is updated belongs to
  pointer 0, whatever mouse button the event carries. The right mouse button (3) pressed
  over a window: the button of pointer 2 goes down, the button of pointer 0 stays as it
  was, and the position is written to slot 0.
\<close>

theorem mouse_right_button_counterexample:
  "UpdateEvent desktop_build (SDL_MOUSEBUTTON 3 SDL_PRESSED 1 10 20) InputSystem_new =
     Some (InputSystem_new
       \<lparr>pointers := [InputPointer_new\<lparr>mousepos := (10, 20), used := True\<rparr>, InputPointer_new],
        pointer_button := (pointer_button InputSystem_new)
          (2 := \<lparr>is_down = True, went_down = True, went_up = False\<rparr>),
        calls := [Call_GetPointerButton_Update 2 True]\<rparr>) \<and>
   pointer_button InputSystem_new 0 = Button_new \<and>
   ((pointer_button InputSystem_new)(2 := \<lparr>is_down = True, went_down = True, went_up = False\<rparr>)) 0 =
     Button_new \<and>
   \<not> is_down Button_new"
proof -
  show ?thesis
    by (simp add: size_t_of_int_def desktop_build_def InputSystem_new_def InputPointer_new_def
        Button_new_def GetPointerButton_Update_def update_pointer0_def Update_def SDL_PRESSED_def)
qed

text \<open>
  Claim C1, amended. Every mouse event leaves the touch-identity table alone
  (\<^verbatim>\<open>FindPointer\<close> and \<^verbatim>\<open>RemovePointer\<close> are not called, and no id changes) and writes
  no pointer slot but slot 0. A mouse button event updates the pointer button with index
  \<^verbatim>\<open>event.button.button - 1\<close>, which is the button of pointer 0 exactly for mouse
  button 1; motion and wheel events update no button.
\<close>

theorem mouse_events_write_pointer0:
  "pointers s = p # ps \<Longrightarrow>
   (\<exists>s'. UpdateEvent cfg (SDL_MOUSEBUTTON button st w x y) s = Some s' \<and>
      (\<exists>p'. pointers s' = p' # ps \<and> pointer_id p' = pointer_id p) \<and>
      calls s' = calls s @
        [Call_GetPointerButton_Update (size_t_of_int (uint button - 1)) (st = SDL_PRESSED)] \<and>
      pointer_button s' = (pointer_button s)
        (size_t_of_int (uint button - 1) :=
           Update (st = SDL_PRESSED) (pointer_button s (size_t_of_int (uint button - 1)))) \<and>
      (size_t_of_int (uint button - 1) = 0) = (button = 1)) \<and>
   (\<exists>s'. UpdateEvent cfg (SDL_MOUSEMOTION mx my xrel yrel) s = Some s' \<and>
      (\<exists>p'. pointers s' = p' # ps \<and> pointer_id p' = pointer_id p) \<and>
      calls s' = calls s \<and> pointer_button s' = pointer_button s) \<and>
   (\<exists>s'. UpdateEvent cfg (SDL_MOUSEWHEEL wx wy) s = Some s' \<and>
      pointers s' = pointers s \<and> calls s' = calls s \<and> pointer_button s' = pointer_button s)"
  by (simp add: mouse_button_result mouse_motion_result left_button_only del: UpdateEvent.simps)
    simp

theorem mouse_events_write_pointer0_witness:
  "\<exists>s'. UpdateEvent desktop_build (SDL_MOUSEBUTTON 3 SDL_PRESSED 1 10 20) InputSystem_new = Some s' \<and>
      calls s' = [Call_GetPointerButton_Update 2 True] \<and>
      pointer_button s' = (pointer_button InputSystem_new)(2 := Update True Button_new)"
proof -
  have idx: "size_t_of_int (uint (3 :: 8 word) - 1) = 2"
    by (simp add: size_t_of_int_def)
  have slots: "pointers InputSystem_new = InputPointer_new # [InputPointer_new]"
    by (simp add: InputSystem_new_def)
  from mouse_events_write_pointer0 [OF slots, of desktop_build 3 SDL_PRESSED 1 10 20]
  obtain s' where
    "UpdateEvent desktop_build (SDL_MOUSEBUTTON 3 SDL_PRESSED 1 10 20) InputSystem_new = Some s'"
    "calls s' = calls InputSystem_new @
       [Call_GetPointerButton_Update (size_t_of_int (uint (3 :: 8 word) - 1)) (SDL_PRESSED = SDL_PRESSED)]"
    "pointer_button s' = (pointer_button InputSystem_new)
       (size_t_of_int (uint (3 :: 8 word) - 1) :=
          Update (SDL_PRESSED = SDL_PRESSED)
            (pointer_button InputSystem_new (size_t_of_int (uint (3 :: 8 word) - 1))))"
    by blast
  then show ?thesis
    unfolding idx by (intro exI [of _ s']) (simp add: InputSystem_new_def)
qed

lemma find_index_less: "find_index P xs = Some i \<Longrightarrow> i < length xs"
  by (induction xs arbitrary: i) (auto split: if_splits)

lemma FindPointer_length: "length (snd (FindPointer f ps)) = length ps"
  by (simp add: FindPointer_def split: option.splits)

lemma FindPointer_less: "ps \<noteq> [] \<Longrightarrow> fst (FindPointer f ps) < length ps"
  by (auto simp: FindPointer_def dest: find_index_less split: option.splits)

lemma finger_up_result:
  assumes "PLATFORM_MOBILE cfg" and "pointers s \<noteq> []"
  shows "UpdateEvent cfg (SDL_FINGERUP f) s =
     Some (s\<lparr>touch_device := True,
             pointers := (snd (FindPointer f (pointers s)))
               [fst (FindPointer f (pointers s)) :=
                  (snd (FindPointer f (pointers s)) ! fst (FindPointer f (pointers s)))\<lparr>used := False\<rparr>],
             pointer_button := (pointer_button s)
               (fst (FindPointer f (pointers s)) :=
                  Update False (pointer_button s (fst (FindPointer f (pointers s))))),
             calls := calls s @
               [Call_FindPointer f, Call_RemovePointer (fst (FindPointer f (pointers s))),
                Call_GetPointerButton_Update (fst (FindPointer f (pointers s))) False]\<rparr>)"
proof -
  obtain i ps where fp: "FindPointer f (pointers s) = (i, ps)"
    by (cases "FindPointer f (pointers s)")
  have "i < length ps"
    using FindPointer_less [OF assms(2), of f] FindPointer_length [of f "pointers s"] fp by simp
  then show ?thesis
    using assms(1)
    by (simp add: fp do_FindPointer_def do_RemovePointer_def RemovePointer_def
        GetPointerButton_Update_def)
qed

text \<open>
  Claim C5, as stated: on a finger-up event the pointer is looked up, its button is
  released, and then its slot is freed. On a mobile build the calls are made in another
  order.
\<close>

theorem finger_up_order_counterexample:
  "map_option calls (UpdateEvent mobile_build (SDL_FINGERUP 7) InputSystem_new) =
     Some [Call_FindPointer 7, Call_RemovePointer 0, Call_GetPointerButton_Update 0 False] \<and>
   map_option calls (UpdateEvent mobile_build (SDL_FINGERUP 7) InputSystem_new) \<noteq>
     Some (finger_up_calls_spec 7 0)"
  by (simp add: mobile_build_def InputSystem_new_def InputPointer_new_def do_FindPointer_def
      FindPointer_def do_RemovePointer_def RemovePointer_def GetPointerButton_Update_def
      finger_up_calls_spec_def)

text \<open>
  Claim C5, amended. On a finger-up event of a mobile build the pointer ordinal is looked
  up by the finger id, then the slot is freed (\<^verbatim>\<open>RemovePointer\<close>), and then the button of
  that pointer is released (\<^verbatim>\<open>Update(false)\<close>); afterwards the button is up and the slot
  is free.
\<close>

theorem finger_up_frees_then_releases:
  "PLATFORM_MOBILE cfg \<Longrightarrow> pointers s \<noteq> [] \<Longrightarrow>
   (\<exists>s'. UpdateEvent cfg (SDL_FINGERUP f) s = Some s' \<and>
      calls s' = calls s @
        [Call_FindPointer f, Call_RemovePointer (fst (FindPointer f (pointers s))),
         Call_GetPointerButton_Update (fst (FindPointer f (pointers s))) False] \<and>
      \<not> is_down (pointer_button s' (fst (FindPointer f (pointers s)))) \<and>
      \<not> used (pointers s' ! fst (FindPointer f (pointers s))))"
proof -
  assume mobile: "PLATFORM_MOBILE cfg" and slots: "pointers s \<noteq> []"
  have in_range: "fst (FindPointer f (pointers s)) < length (snd (FindPointer f (pointers s)))"
    using FindPointer_less [OF slots, of f] FindPointer_length [of f "pointers s"] by simp
  show ?thesis
    unfolding finger_up_result [OF mobile slots, of f]
    using in_range by (simp add: Update_def)
qed

theorem finger_up_frees_then_releases_witness:
  "PLATFORM_MOBILE mobile_build \<and> pointers InputSystem_new \<noteq> [] \<and>
   (\<exists>s'. UpdateEvent mobile_build (SDL_FINGERUP 7) InputSystem_new = Some s' \<and>
      calls s' = [Call_FindPointer 7, Call_RemovePointer 0, Call_GetPointerButton_Update 0 False])"
proof -
  have mobile: "PLATFORM_MOBILE mobile_build" by (simp add: mobile_build_def)
  have slots: "pointers InputSystem_new \<noteq> []" by (simp add: InputSystem_new_def)
  have first: "fst (FindPointer 7 (pointers InputSystem_new)) = 0"
    by (simp add: FindPointer_def InputSystem_new_def InputPointer_new_def)
  have none: "calls InputSystem_new = []" by (simp add: InputSystem_new_def)
  from finger_up_frees_then_releases [OF mobile slots, of 7]
  obtain s' where
    "UpdateEvent mobile_build (SDL_FINGERUP 7) InputSystem_new = Some s'"
    "calls s' = calls InputSystem_new @
        [Call_FindPointer 7, Call_RemovePointer (fst (FindPointer 7 (pointers InputSystem_new))),
         Call_GetPointerButton_Update (fst (FindPointer 7 (pointers InputSystem_new))) False]"
    by blast
  then have "\<exists>s'. UpdateEvent mobile_build (SDL_FINGERUP 7) InputSystem_new = Some s' \<and>
      calls s' = [Call_FindPointer 7, Call_RemovePointer 0, Call_GetPointerButton_Update 0 False]"
    unfolding first none by (intro exI [of _ s']) simp
  with mobile slots show ?thesis by blast
qed

end
